theory Spec2Isabelle
  imports Complex_Main "HOL-Library.AList" "HOL-Library.Char_ord" "HOL-Library.List_Lexorder"
begin

section \<open>The company map viewer: session state and one pass of the script\<close>

text \<open>
  The program is one Streamlit script, \<^verbatim>\<open>streamlit_app.py\<close>. Every interaction of the
  user runs the script once from top to bottom over the session state, which is the only
  thing that survives from one run to the next. A run is modelled as a function from the
  values the widgets return in that run and the session state before it to the session
  state after it and the messages shown.

  Python floats are modelled as real numbers (rounding, infinities and NaN are outside the
  model). A spreadsheet cell of a coordinate column is a number or a piece of text that
  does not read as a number; the label columns (Company Location, Company Name, Project
  Name) are text. Widgets are calls into the framework: what a checkbox or a button
  returns is an input of the pass, and a second widget with a key already used in the pass
  raises. Of the drawing of the legend and of the map, which writes no session state, the
  model keeps the exceptions: the mean of a column with text, a map centred on no row, a
  marker at a text coordinate. The operations on a sheet are read by what they do row by
  row.
\<close>

subsection \<open>Values and exceptions\<close>

datatype cell = Num real | Text string

datatype exn = TypeError | ValueError | KeyError | LoadError string | DuplicateWidgetID string

definition numeric :: "cell \<Rightarrow> bool" where
  "numeric c = (case c of Num x \<Rightarrow> True | Text x \<Rightarrow> False)"

subsection \<open>The distance function (lines 10 to 14)\<close>

definition radians :: "real \<Rightarrow> real" where
  "radians x = x * (pi / 180)"

definition hav_a :: "real \<Rightarrow> real \<Rightarrow> real \<Rightarrow> real \<Rightarrow> real" where
  \<comment> \<open>the local \<open>a\<close> of \<open>haversine\<close>, on numbers\<close>
  "hav_a lat1 lon1 lat2 lon2 =
     (let dlat = radians (lat2 - lat1); dlon = radians (lon2 - lon1)
      in (sin (dlat / 2))\<^sup>2 + cos (radians lat1) * cos (radians lat2) * (sin (dlon / 2))\<^sup>2)"

fun haversine :: "cell \<Rightarrow> cell \<Rightarrow> cell \<Rightarrow> cell \<Rightarrow> exn + real" where
  \<comment> \<open>\<open>math.sqrt\<close> raises ValueError below 0 and \<open>math.asin\<close> outside [-1, 1];
      subtracting with a text operand raises TypeError\<close>
  "haversine (Num lat1) (Num lon1) (Num lat2) (Num lon2) =
     (let R = 3958.8; a = hav_a lat1 lon1 lat2 lon2
      in if a < 0 then Inl ValueError
         else if 1 < sqrt a then Inl ValueError
         else Inr (R * 2 * arcsin (sqrt a)))"
| "haversine _ _ _ _ = Inl TypeError"

subsection \<open>Session state (lines 17 to 20)\<close>

record project_site =
  lat :: cell
  lon :: cell
  visible :: bool

text \<open>
  \<open>project_sites\<close> is a Python dict, which iterates in insertion order: an association
  list, written with \<^const>\<open>AList.update\<close> (an existing key keeps its place, a new key
  goes to the end). \<open>competitor_visibility\<close> is a dict that is only looked up and
  written by key, and \<open>all_competitors\<close> is a set.
\<close>

record session =
  competitor_visibility :: "string \<rightharpoonup> bool"
  project_sites :: "(string \<times> project_site) list"
  all_competitors :: "string set"
  last_radius :: real

definition initial_session :: session where
  "initial_session =
     \<lparr>competitor_visibility = Map.empty, project_sites = [], all_competitors = {},
      last_radius = - 1\<rparr>"

subsection \<open>The uploaded workbook and the widgets\<close>

record company_row =
  Company_Location :: string
  Latitude :: cell
  Longitude :: cell
  Company_Name :: string

record project_row =
  Project_Name :: string
  P_Latitude :: cell
  P_Longitude :: cell

record companies_df =
  c_columns :: "string list"
  c_rows :: "company_row list"

record projects_df =
  p_columns :: "string list"
  p_rows :: "project_row list"

datatype map_mode = All_Companies_with_Radius | Companies_Within_Radius_of_Project

datatype message =
    Success_added string
  | Error_companies_columns
  | Error_projects_columns
  | Error_loading exn
  | Info_upload

text \<open>
  The values the widgets return in one pass. \<open>uploaded_file\<close> is \<open>None\<close> when nothing is
  uploaded; otherwise it holds what lines 57 to 59 make of the file: the exception they
  raise, or the two sheets. A checkbox is given its key and its \<open>value\<close> argument, a
  button its key (and, for the group buttons, the state its label shows).
\<close>

record ui =
  uploaded_file :: "(exn + companies_df \<times> projects_df) option"
  new_name :: string
  new_lat :: real
  new_lon :: real
  add_project_button :: bool
  mode :: map_mode
  radius_manual :: real
  proj_checkbox :: "string \<Rightarrow> bool \<Rightarrow> bool"
  remove_button :: "string \<Rightarrow> bool"
  global_button :: "bool \<Rightarrow> bool"
  group_button :: "string \<Rightarrow> bool \<Rightarrow> bool"
  toggle_checkbox :: "string \<Rightarrow> bool \<Rightarrow> bool"

subsection \<open>Adding a project by hand (lines 34 to 36)\<close>

definition add_project :: "string \<Rightarrow> real \<Rightarrow> real \<Rightarrow> session \<Rightarrow> session" where
  "add_project name la lo s =
     s\<lparr>project_sites :=
         AList.update name \<lparr>lat = Num la, lon = Num lo, visible = True\<rparr> (project_sites s)\<rparr>"

definition add_project_section :: "ui \<Rightarrow> session \<Rightarrow> session \<times> message list" where
  "add_project_section u s =
     (if add_project_button u
      then (add_project (new_name u) (new_lat u) (new_lon u) s, [Success_added (new_name u)])
      else (s, []))"

subsection \<open>Loading: the column check and the seeding of the projects (lines 61 to 71)\<close>

definition required_cols :: "string list" where
  "required_cols = [''Company Location'', ''Latitude'', ''Longitude'', ''Company Name'']"

definition required_project_cols :: "string list" where
  "required_project_cols = [''Project Name'', ''Latitude'', ''Longitude'']"

definition has_columns :: "string list \<Rightarrow> string list \<Rightarrow> bool" where
  "has_columns required cols = list_all (\<lambda>col. col \<in> set cols) required"

fun insert_projects ::
  "project_row list \<Rightarrow> (string \<times> project_site) list \<Rightarrow> (string \<times> project_site) list" where
  "insert_projects [] sites = sites"
| "insert_projects (row # rows) sites =
     insert_projects rows
       (AList.update (Project_Name row)
          \<lparr>lat = P_Latitude row, lon = P_Longitude row, visible = True\<rparr> sites)"

definition seed_projects :: "project_row list \<Rightarrow> session \<Rightarrow> session" where
  "seed_projects rows s =
     (if project_sites s = [] then s\<lparr>project_sites := insert_projects rows (project_sites s)\<rparr>
      else s)"

subsection \<open>The project checkboxes and delete buttons (lines 73 to 82)\<close>

fun project_checkboxes ::
  "ui \<Rightarrow> (string \<times> project_site) list \<Rightarrow> (string \<times> project_site) list \<times> string list" where
  "project_checkboxes u [] = ([], [])"
| "project_checkboxes u ((name, data) # rest) =
     (let data' = data\<lparr>visible := proj_checkbox u name (visible data)\<rparr>;
          (rest', to_delete) = project_checkboxes u rest
      in ((name, data') # rest',
          (if remove_button u name then name # to_delete else to_delete)))"

fun delete_all :: "string list \<Rightarrow> (string \<times> project_site) list \<Rightarrow> (string \<times> project_site) list" where
  "delete_all [] sites = sites"
| "delete_all (name # names) sites = delete_all names (AList.delete name sites)"

definition manage_project_sites :: "ui \<Rightarrow> session \<Rightarrow> session" where
  "manage_project_sites u s =
     (let (sites, to_delete) = project_checkboxes u (project_sites s)
      in s\<lparr>project_sites := delete_all to_delete sites\<rparr>)"

subsection \<open>The seeding of the companies (lines 84 to 88)\<close>

fun seed_companies :: "company_row list \<Rightarrow> session \<Rightarrow> session" where
  "seed_companies [] s = s"
| "seed_companies (row # rows) s =
     (let cname = Company_Location row;
          s1 = s\<lparr>all_competitors := insert cname (all_competitors s)\<rparr>;
          s2 = (if competitor_visibility s1 cname = None
                then s1\<lparr>competitor_visibility := (competitor_visibility s1)(cname \<mapsto> True)\<rparr>
                else s1)
      in seed_companies rows s2)"

subsection \<open>The radius step (lines 90 to 108)\<close>

definition visible_projects :: "(string \<times> project_site) list \<Rightarrow> string list" where
  "visible_projects sites = map fst (filter (\<lambda>(p, v). visible v) sites)"

definition selected_project :: "map_mode \<Rightarrow> (string \<times> project_site) list \<Rightarrow> string option" where
  "selected_project m sites =
     (if m = Companies_Within_Radius_of_Project \<and> visible_projects sites \<noteq> []
      then Some (hd (visible_projects sites)) else None)"

fun distances :: "cell \<Rightarrow> cell \<Rightarrow> company_row list \<Rightarrow> exn + real list" where
  \<comment> \<open>the column \<open>Distance (mi)\<close> of lines 97 to 99; the first failing row raises\<close>
  "distances proj_lat proj_lon [] = Inr []"
| "distances proj_lat proj_lon (row # rows) =
     (case haversine proj_lat proj_lon (Latitude row) (Longitude row) of
        Inl e \<Rightarrow> Inl e
      | Inr d \<Rightarrow>
          (case distances proj_lat proj_lon rows of
             Inl e \<Rightarrow> Inl e
           | Inr ds \<Rightarrow> Inr (d # ds)))"

fun recompute_companies ::
  "real \<Rightarrow> (company_row \<times> real) list \<Rightarrow> (string \<rightharpoonup> bool) \<Rightarrow> (string \<rightharpoonup> bool)" where
  \<comment> \<open>lines 102 to 104, over the rows paired with their distances\<close>
  "recompute_companies radius_miles [] cv = cv"
| "recompute_companies radius_miles ((row, d) # rest) cv =
     recompute_companies radius_miles rest (cv(Company_Location row \<mapsto> d \<le> radius_miles))"

fun recompute_projects ::
  "cell \<Rightarrow> cell \<Rightarrow> real \<Rightarrow> (string \<times> project_site) list \<Rightarrow>
   (string \<times> project_site) list \<times> exn option" where
  \<comment> \<open>lines 105 to 107; a distance that raises leaves the flags written so far\<close>
  "recompute_projects proj_lat proj_lon radius_miles [] = ([], None)"
| "recompute_projects proj_lat proj_lon radius_miles ((pname, pdata) # rest) =
     (case haversine proj_lat proj_lon (lat pdata) (lon pdata) of
        Inl e \<Rightarrow> ((pname, pdata) # rest, Some e)
      | Inr dist_mi \<Rightarrow>
          (let (rest', e) = recompute_projects proj_lat proj_lon radius_miles rest
           in ((pname, pdata\<lparr>visible := dist_mi \<le> radius_miles\<rparr>) # rest', e)))"

definition radius_step ::
  "map_mode \<Rightarrow> real \<Rightarrow> company_row list \<Rightarrow> session \<Rightarrow> session \<times> exn option" where
  "radius_step m radius_miles rows s =
     (case selected_project m (project_sites s) of
        None \<Rightarrow> (s, None)
      | Some sel \<Rightarrow>
          (case map_of (project_sites s) sel of
             None \<Rightarrow> (s, Some KeyError)
           | Some proj \<Rightarrow>
               (case distances (lat proj) (lon proj) rows of
                  Inl e \<Rightarrow> (s, Some e)
                | Inr ds \<Rightarrow>
                    if radius_miles \<noteq> last_radius s then
                      (let s1 = s\<lparr>competitor_visibility :=
                                   recompute_companies radius_miles (zip rows ds)
                                     (competitor_visibility s)\<rparr>;
                           (sites, e) = recompute_projects (lat proj) (lon proj) radius_miles
                                          (project_sites s1);
                           s2 = s1\<lparr>project_sites := sites\<rparr>
                       in (case e of
                             Some x \<Rightarrow> (s2, Some x)
                           | None \<Rightarrow> (s2\<lparr>last_radius := radius_miles\<rparr>, None)))
                    else (s, None))))"

subsection \<open>The company toggles (lines 133 to 153)\<close>

definition shown :: "(string \<rightharpoonup> bool) \<Rightarrow> string \<Rightarrow> bool" where
  \<comment> \<open>\<open>bool(competitor_visibility.get(c, True))\<close>\<close>
  "shown cv c = (case cv c of None \<Rightarrow> True | Some b \<Rightarrow> b)"

definition global_all_on :: "session \<Rightarrow> bool" where
  "global_all_on s = (\<forall>c \<in> all_competitors s. shown (competitor_visibility s) c)"

definition global_toggle :: "session \<Rightarrow> session" where
  \<comment> \<open>the body of the button of line 134: every member is written the same value\<close>
  "global_toggle s =
     s\<lparr>competitor_visibility :=
         (\<lambda>c. if c \<in> all_competitors s then Some (\<not> global_all_on s)
              else competitor_visibility s c)\<rparr>"

definition global_section :: "ui \<Rightarrow> session \<Rightarrow> session" where
  "global_section u s = (if global_button u (global_all_on s) then global_toggle s else s)"

definition all_checked :: "company_row list \<Rightarrow> (string \<rightharpoonup> bool) \<Rightarrow> bool" where
  "all_checked grp cv = list_all (\<lambda>row. shown cv (Company_Location row)) grp"

fun set_group :: "bool \<Rightarrow> company_row list \<Rightarrow> (string \<rightharpoonup> bool) \<Rightarrow> (string \<rightharpoonup> bool)" where
  \<comment> \<open>lines 145 to 147\<close>
  "set_group b [] cv = cv"
| "set_group b (row # rows) cv = set_group b rows (cv(Company_Location row \<mapsto> b))"

definition group_toggle :: "company_row list \<Rightarrow> (string \<rightharpoonup> bool) \<Rightarrow> (string \<rightharpoonup> bool)" where
  \<comment> \<open>the body of the button of line 144\<close>
  "group_toggle grp cv = set_group (\<not> all_checked grp cv) grp cv"

fun company_checkboxes ::
  "ui \<Rightarrow> company_row list \<Rightarrow> (string \<rightharpoonup> bool) \<times> string list \<Rightarrow>
   ((string \<rightharpoonup> bool) \<times> string list) \<times> exn option" where
  \<comment> \<open>lines 149 to 153, with the locations whose checkbox the pass has made so far: the
      key of line 152 is made of the location, and a key used twice raises\<close>
  "company_checkboxes u [] (cv, seen) = ((cv, seen), None)"
| "company_checkboxes u (row # rows) (cv, seen) =
     (let cname = Company_Location row;
          val = shown cv cname
      in if cname \<in> set seen then ((cv, seen), Some (DuplicateWidgetID cname))
         else (let updated = toggle_checkbox u cname val
               in company_checkboxes u rows (cv(cname \<mapsto> updated), cname # seen)))"

definition group_section ::
  "ui \<Rightarrow> string \<Rightarrow> company_row list \<Rightarrow> (string \<rightharpoonup> bool) \<times> string list \<Rightarrow>
   ((string \<rightharpoonup> bool) \<times> string list) \<times> exn option" where
  \<comment> \<open>lines 141 to 153 for one group\<close>
  "group_section u company grp st =
     (let cv = fst st;
          cv1 = (if group_button u company (all_checked grp cv) then group_toggle grp cv
                 else cv)
      in company_checkboxes u grp (cv1, snd st))"

definition grouped :: "company_row list \<Rightarrow> (string \<times> company_row list) list" where
  \<comment> \<open>\<open>groupby("Company Name")\<close>: the names in sorted order, each with its rows in
      the order of the sheet\<close>
  "grouped rows =
     map (\<lambda>company. (company, filter (\<lambda>row. Company_Name row = company) rows))
       (sort (remdups (map Company_Name rows)))"

fun group_sections ::
  "ui \<Rightarrow> (string \<times> company_row list) list \<Rightarrow> (string \<rightharpoonup> bool) \<times> string list \<Rightarrow>
   ((string \<rightharpoonup> bool) \<times> string list) \<times> exn option" where
  "group_sections u [] st = (st, None)"
| "group_sections u ((company, grp) # rest) st =
     (case group_section u company grp st of
        (st', Some e) \<Rightarrow> (st', Some e)
      | (st', None) \<Rightarrow> group_sections u rest st')"

definition toggles :: "ui \<Rightarrow> company_row list \<Rightarrow> session \<Rightarrow> session \<times> exn option" where
  "toggles u rows s =
     (let s1 = global_section u s;
          (st, e) = group_sections u (grouped rows) (competitor_visibility s1, [])
      in (s1\<lparr>competitor_visibility := fst st\<rparr>, e))"

subsection \<open>The rows shown and the drawing of the map (lines 110 to 111 and 155 to 203)\<close>

definition visible_df :: "company_row list \<Rightarrow> session \<Rightarrow> company_row list" where
  \<comment> \<open>lines 110 and 111: the rows whose location has a true flag\<close>
  "visible_df rows s =
     filter (\<lambda>row. competitor_visibility s (Company_Location row) = Some True) rows"

definition map_centre :: "company_row list \<Rightarrow> exn option" where
  \<comment> \<open>line 156: the mean of a column with text raises TypeError; the mean of no row is
      NaN, which \<open>folium.Map\<close> refuses with ValueError\<close>
  "map_centre shown_rows =
     (if list_ex (\<lambda>row. \<not> numeric (Latitude row)) shown_rows then Some TypeError
      else if list_ex (\<lambda>row. \<not> numeric (Longitude row)) shown_rows then Some TypeError
      else if shown_rows = [] then Some ValueError
      else None)"

fun project_markers :: "(string \<times> project_site) list \<Rightarrow> exn option" where
  \<comment> \<open>lines 158 to 171: a marker at a text coordinate raises ValueError\<close>
  "project_markers [] = None"
| "project_markers ((name, data) # rest) =
     (if visible data
      then (if numeric (lat data) \<and> numeric (lon data) then project_markers rest
            else Some ValueError)
      else project_markers rest)"

fun company_markers :: "company_row list \<Rightarrow> exn option" where
  \<comment> \<open>lines 173 to 200\<close>
  "company_markers [] = None"
| "company_markers (row # rows) =
     (if numeric (Latitude row) \<and> numeric (Longitude row) then company_markers rows
      else Some ValueError)"

definition draw_map :: "company_row list \<Rightarrow> (string \<times> project_site) list \<Rightarrow> exn option" where
  "draw_map shown_rows sites =
     (case map_centre shown_rows of
        Some e \<Rightarrow> Some e
      | None \<Rightarrow>
          (case project_markers sites of
             Some e \<Rightarrow> Some e
           | None \<Rightarrow> company_markers shown_rows))"

subsection \<open>The load section (lines 55 to 208) and the whole pass\<close>

definition process :: "ui \<Rightarrow> companies_df \<Rightarrow> projects_df \<Rightarrow> session \<Rightarrow> session \<times> exn option" where
  \<comment> \<open>the \<open>else\<close> branch of lines 66 to 203\<close>
  "process u companies projects s =
     (let s1 = seed_projects (p_rows projects) s;
          s2 = manage_project_sites u s1;
          s3 = seed_companies (c_rows companies) s2;
          (s4, e) = radius_step (mode u) (radius_manual u) (c_rows companies) s3
      in (case e of
            Some x \<Rightarrow> (s4, Some x)
          | None \<Rightarrow>
              (let shown_rows = visible_df (c_rows companies) s4;
                   (s5, e') = toggles u (c_rows companies) s4
               in (case e' of
                     Some x \<Rightarrow> (s5, Some x)
                   | None \<Rightarrow> (s5, draw_map shown_rows (project_sites s5))))))"

definition load_data :: "ui \<Rightarrow> session \<Rightarrow> session \<times> message list" where
  "load_data u s =
     (case uploaded_file u of
        None \<Rightarrow> (s, [Info_upload])
      | Some (Inl e) \<Rightarrow> (s, [Error_loading e])
      | Some (Inr (companies, projects)) \<Rightarrow>
          if \<not> has_columns required_cols (c_columns companies)
          then (s, [Error_companies_columns])
          else if \<not> has_columns required_project_cols (p_columns projects)
          then (s, [Error_projects_columns])
          else (case process u companies projects s of
                  (s', Some e) \<Rightarrow> (s', [Error_loading e])
                | (s', None) \<Rightarrow> (s', [])))"

definition script :: "ui \<Rightarrow> session \<Rightarrow> session \<times> message list" where
  "script u s =
     (let (s1, msgs1) = add_project_section u s;
          (s2, msgs2) = load_data u s1
      in (s2, msgs1 @ msgs2))"

subsection \<open>Predicates and sample inputs used in the statements\<close>

definition seeded :: "ui \<Rightarrow> companies_df \<Rightarrow> projects_df \<Rightarrow> session \<Rightarrow> session" where
  \<comment> \<open>the session when line 90 is reached\<close>
  "seeded u companies projects s =
     seed_companies (c_rows companies) (manage_project_sites u (seed_projects (p_rows projects) s))"

definition example_rows :: "company_row list" where
  "example_rows =
     [\<lparr>Company_Location = ''A'', Latitude = Num 0, Longitude = Num 0, Company_Name = ''Acme''\<rparr>,
      \<lparr>Company_Location = ''B'', Latitude = Num 0, Longitude = Num 180, Company_Name = ''Acme''\<rparr>]"

definition example_project_rows :: "project_row list" where
  "example_project_rows =
     [\<lparr>Project_Name = ''P'', P_Latitude = Num 0, P_Longitude = Num 0\<rparr>,
      \<lparr>Project_Name = ''Q'', P_Latitude = Num 0, P_Longitude = Num 180\<rparr>]"

definition example_session :: session where
  \<comment> \<open>a session after a recompute at radius 10 and two manual toggles\<close>
  "example_session =
     \<lparr>competitor_visibility = [''A'' \<mapsto> False, ''B'' \<mapsto> True],
      project_sites =
        [(''P'', \<lparr>lat = Num 0, lon = Num 0, visible = True\<rparr>),
         (''Q'', \<lparr>lat = Num 0, lon = Num 180, visible = True\<rparr>)],
      all_competitors = {''A'', ''B''},
      last_radius = 10\<rparr>"

definition echo :: "string \<Rightarrow> bool \<Rightarrow> bool" where
  \<comment> \<open>a checkbox the user leaves alone returns the value it is given\<close>
  "echo key v = v"

definition example_ui :: ui where
  "example_ui =
     \<lparr>uploaded_file =
        Some (Inr (\<lparr>c_columns = required_cols, c_rows = example_rows\<rparr>,
                   \<lparr>p_columns = required_project_cols, p_rows = example_project_rows\<rparr>)),
      new_name = ''X'', new_lat = 40, new_lon = - 75, add_project_button = True,
      mode = Companies_Within_Radius_of_Project, radius_manual = 25,
      proj_checkbox = echo, remove_button = (\<lambda>name. False),
      global_button = (\<lambda>all_on. False), group_button = (\<lambda>company all_on. False),
      toggle_checkbox = echo\<rparr>"

definition bad_cell_ui :: ui where
  \<comment> \<open>the same pass over a workbook whose one company has text for a latitude\<close>
  "bad_cell_ui =
     example_ui\<lparr>uploaded_file :=
        Some (Inr (\<lparr>c_columns = required_cols,
                    c_rows = [\<lparr>Company_Location = ''A'', Latitude = Text ''abc'',
                               Longitude = Num 0, Company_Name = ''Acme''\<rparr>]\<rparr>,
                   \<lparr>p_columns = required_project_cols, p_rows = example_project_rows\<rparr>))\<rparr>"

definition hidden_ui :: ui where
  \<comment> \<open>a pass in the other mode, nothing pressed, every checkbox unchecked\<close>
  "hidden_ui =
     example_ui\<lparr>mode := All_Companies_with_Radius, add_project_button := False,
                toggle_checkbox := (\<lambda>key v. False)\<rparr>"

definition twice_ui :: ui where
  \<comment> \<open>the same pass over a workbook that lists the location A twice\<close>
  "twice_ui =
     example_ui\<lparr>mode := All_Companies_with_Radius, add_project_button := False,
       uploaded_file :=
        Some (Inr (\<lparr>c_columns = required_cols,
                    c_rows = [\<lparr>Company_Location = ''A'', Latitude = Num 0,
                               Longitude = Num 0, Company_Name = ''Acme''\<rparr>,
                              \<lparr>Company_Location = ''A'', Latitude = Num 0,
                               Longitude = Num 0, Company_Name = ''Acme''\<rparr>]\<rparr>,
                   \<lparr>p_columns = required_project_cols, p_rows = example_project_rows\<rparr>))\<rparr>"

definition all_on_session :: session where
  \<comment> \<open>a session in which every company is shown\<close>
  "all_on_session =
     example_session\<lparr>competitor_visibility := [''A'' \<mapsto> True, ''B'' \<mapsto> True]\<rparr>"

definition all_off_session :: session where
  \<comment> \<open>a session in which the user has unchecked every company\<close>
  "all_off_session =
     example_session\<lparr>competitor_visibility := [''A'' \<mapsto> False, ''B'' \<mapsto> False]\<rparr>"

definition deselect_ui :: ui where
  \<comment> \<open>the pass after a click on "Deselect All (Acme)": the button of the group returns
      True, and the two checkboxes, checked since the pass before, return True\<close>
  "deselect_ui =
     example_ui\<lparr>mode := All_Companies_with_Radius, add_project_button := False,
                group_button := (\<lambda>company all_on. company = ''Acme''),
                toggle_checkbox := (\<lambda>key v. True)\<rparr>"

definition missing_column_ui :: ui where
  \<comment> \<open>the same pass over a workbook whose Companies sheet has no Company Name\<close>
  "missing_column_ui =
     example_ui\<lparr>uploaded_file :=
        Some (Inr (\<lparr>c_columns = [''Company Location'', ''Latitude'', ''Longitude''],
                    c_rows = example_rows\<rparr>,
                   \<lparr>p_columns = required_project_cols, p_rows = example_project_rows\<rparr>))\<rparr>"

section \<open>The distance function\<close>

lemma hav_a_sym: "hav_a lat1 lon1 lat2 lon2 = hav_a lat2 lon2 lat1 lon1"
proof -
  have s: "(sin (radians (x - y) / 2))\<^sup>2 = (sin (radians (y - x) / 2))\<^sup>2" for x y :: real
  proof -
    have "radians (x - y) / 2 = - (radians (y - x) / 2)"
      by (simp add: radians_def field_simps)
    then show ?thesis by simp
  qed
  show ?thesis
    unfolding hav_a_def Let_def
    using s [of lat2 lat1] s [of lon2 lon1] by (simp add: mult.commute)
qed

lemma hav_a_alt:
  "hav_a lat1 lon1 lat2 lon2 =
     (1 - cos (radians lat2 - radians lat1)) / 2
     + (cos (radians lat2 - radians lat1) + cos (radians lat2 + radians lat1)) / 2
       * (sin (radians (lon2 - lon1) / 2))\<^sup>2"
proof -
  have r: "radians (lat2 - lat1) = radians lat2 - radians lat1"
    by (simp add: radians_def field_simps)
  have "2 * ((radians lat2 - radians lat1) / 2) = radians lat2 - radians lat1"
    by simp
  then have "cos (radians lat2 - radians lat1) = 1 - 2 * (sin ((radians lat2 - radians lat1) / 2))\<^sup>2"
    using cos_double_sin [of "(radians lat2 - radians lat1) / 2"] by (simp only:)
  then have h: "(sin ((radians lat2 - radians lat1) / 2))\<^sup>2 = (1 - cos (radians lat2 - radians lat1)) / 2"
    by simp
  have p: "cos (radians lat1) * cos (radians lat2)
           = (cos (radians lat2 - radians lat1) + cos (radians lat2 + radians lat1)) / 2"
    by (simp add: cos_add cos_diff)
  show ?thesis
    unfolding hav_a_def Let_def r h p ..
qed

lemma hav_a_range: "0 \<le> hav_a lat1 lon1 lat2 lon2 \<and> hav_a lat1 lon1 lat2 lon2 \<le> 1"
proof -
  define c where "c = cos (radians lat2 - radians lat1)"
  define c' where "c' = cos (radians lat2 + radians lat1)"
  define t where "t = (sin (radians (lon2 - lon1) / 2))\<^sup>2"
  have a: "hav_a lat1 lon1 lat2 lon2 = (1 - c) / 2 + (c + c') / 2 * t"
    unfolding c_def c'_def t_def by (rule hav_a_alt)
  have c: "- 1 \<le> c" "c \<le> 1" and c': "- 1 \<le> c'" "c' \<le> 1"
    unfolding c_def c'_def by simp_all
  have t: "0 \<le> t" "t \<le> 1"
    unfolding t_def by (simp_all add: abs_square_le_1)
  have e: "(1 - c) / 2 + (c + c') / 2 * t = ((1 - c) * (1 - t) + (1 + c') * t) / 2"
    by (simp add: field_simps)
  have n1: "0 \<le> (1 - c) * (1 - t)" and n2: "0 \<le> (1 + c') * t"
    using c c' t by simp_all
  have u1: "(1 - c) * (1 - t) \<le> 2 * (1 - t)"
    by (rule mult_right_mono) (use c t in simp_all)
  have u2: "(1 + c') * t \<le> 2 * t"
    by (rule mult_right_mono) (use c' t in simp_all)
  show ?thesis
    unfolding a e using n1 n2 u1 u2 by simp
qed

lemma haversine_Num:
  "haversine (Num lat1) (Num lon1) (Num lat2) (Num lon2)
     = Inr (3958.8 * 2 * arcsin (sqrt (hav_a lat1 lon1 lat2 lon2)))"
proof -
  have "0 \<le> hav_a lat1 lon1 lat2 lon2" "hav_a lat1 lon1 lat2 lon2 \<le> 1"
    using hav_a_range by simp_all
  then have "\<not> hav_a lat1 lon1 lat2 lon2 < 0" "\<not> 1 < sqrt (hav_a lat1 lon1 lat2 lon2)"
    by (simp_all add: not_less)
  then show ?thesis by (simp add: Let_def)
qed

declare haversine.simps [simp del]

lemma hav_a_same: "hav_a la lo la lo = 0"
  by (simp add: hav_a_def radians_def)

text \<open>
  Claim C9. The distance is symmetric in its two points, whatever the cells hold (with a
  text cell both calls raise TypeError), and the distance from a point to itself is 0.
  Floats are read as reals here.
\<close>

theorem haversine_symmetric_zero:
  "haversine lat1 lon1 lat2 lon2 = haversine lat2 lon2 lat1 lon1 \<and>
   haversine (Num la) (Num lo) (Num la) (Num lo) = Inr 0"
proof
  show "haversine lat1 lon1 lat2 lon2 = haversine lat2 lon2 lat1 lon1"
  proof (cases "\<exists>a b c d. lat1 = Num a \<and> lon1 = Num b \<and> lat2 = Num c \<and> lon2 = Num d")
    case True
    then obtain a b c d where "lat1 = Num a" "lon1 = Num b" "lat2 = Num c" "lon2 = Num d"
      by blast
    then show ?thesis
      using hav_a_sym [of a b c d] by (simp add: haversine_Num)
  next
    case False
    then have "haversine lat1 lon1 lat2 lon2 = Inl TypeError"
      by (cases lat1; cases lon1; cases lat2; cases lon2) (simp_all add: haversine.simps)
    moreover from False have "haversine lat2 lon2 lat1 lon1 = Inl TypeError"
      by (cases lat1; cases lon1; cases lat2; cases lon2) (simp_all add: haversine.simps)
    ultimately show ?thesis by simp
  qed
  show "haversine (Num la) (Num lo) (Num la) (Num lo) = Inr 0"
    by (simp add: haversine_Num hav_a_same)
qed

theorem haversine_symmetric_zero_witness:
  "haversine (Num 0) (Num 0) (Num 0) (Num 180) = haversine (Num 0) (Num 180) (Num 0) (Num 0) \<and>
   haversine (Num 40) (Num (- 75)) (Num 40) (Num (- 75)) = Inr 0"
  using haversine_symmetric_zero [of "Num 0" "Num 0" "Num 0" "Num 180" 40 "- 75"] by simp

subsection \<open>The distance at two sample pairs\<close>

lemma haversine_origin: "haversine (Num 0) (Num 0) (Num 0) (Num 0) = Inr 0"
  by (simp add: haversine_Num hav_a_def radians_def)

lemma haversine_antipode: "haversine (Num 0) (Num 0) (Num 0) (Num 180) = Inr (3958.8 * pi)"
  by (simp add: haversine_Num hav_a_def radians_def)

lemma far_away: "\<not> 3958.8 * pi \<le> (25::real)"
  using pi_gt_zero pi_ge_two by simp

section \<open>Loading and adding projects\<close>

lemma update_fresh: "k \<notin> fst ` set al \<Longrightarrow> AList.update k v al = al @ [(k, v)]"
  by (induction al) auto

lemma keys_insert_projects:
  "fst ` set (insert_projects rows sites) = fst ` set sites \<union> Project_Name ` set rows"
  by (induction rows arbitrary: sites) (auto simp: dom_update)

lemma update_visible:
  "\<forall>(n, p) \<in> set sites. visible p \<Longrightarrow> visible v \<Longrightarrow>
   \<forall>(n, p) \<in> set (AList.update k v sites). visible p"
  by (induction sites) auto

lemma insert_projects_visible:
  "\<forall>(n, p) \<in> set sites. visible p \<Longrightarrow> \<forall>(n, p) \<in> set (insert_projects rows sites). visible p"
proof (induction rows arbitrary: sites)
  case Nil
  then show ?case by simp
next
  case (Cons row rows)
  have "\<forall>(n, p) \<in> set (AList.update (Project_Name row)
          \<lparr>lat = P_Latitude row, lon = P_Longitude row, visible = True\<rparr> sites). visible p"
    by (rule update_visible [OF Cons.prems]) simp
  from Cons.IH [OF this] show ?case by simp
qed

lemma insert_projects_distinct:
  "distinct (map Project_Name rows) \<Longrightarrow> Project_Name ` set rows \<inter> fst ` set sites = {} \<Longrightarrow>
   insert_projects rows sites =
     sites @ map (\<lambda>row. (Project_Name row,
                     \<lparr>lat = P_Latitude row, lon = P_Longitude row, visible = True\<rparr>)) rows"
proof (induction rows arbitrary: sites)
  case Nil
  then show ?case by simp
next
  case (Cons row rows)
  have fresh: "Project_Name row \<notin> fst ` set sites"
    using Cons.prems(2) by auto
  let ?sites = "sites @ [(Project_Name row,
      \<lparr>lat = P_Latitude row, lon = P_Longitude row, visible = True\<rparr>)]"
  have "Project_Name ` set rows \<inter> fst ` set ?sites = {}"
    using Cons.prems by auto
  with Cons.prems(1) have "insert_projects rows ?sites = ?sites @ map (\<lambda>row. (Project_Name row,
                     \<lparr>lat = P_Latitude row, lon = P_Longitude row, visible = True\<rparr>)) rows"
    by (intro Cons.IH) simp_all
  then show ?case
    by (simp add: update_fresh [OF fresh])
qed

text \<open>
  Claim C7. The seeding of lines 67 to 71 writes the project sites only when there are none:
  a session that has a project site is returned as it is. From an empty one, the keys of
  the result are the names of the sheet, every entry is visible, nothing else of the session
  changes, and with distinct names the result is the rows of the sheet in order, each with
  \<open>visible = True\<close> (a repeated name keeps the place of its first row and the data of
  its last).
\<close>

theorem seed_projects_first_load_only:
  "(project_sites s \<noteq> [] \<longrightarrow> seed_projects rows s = s) \<and>
   (project_sites s = [] \<longrightarrow>
      fst ` set (project_sites (seed_projects rows s)) = Project_Name ` set rows \<and>
      (\<forall>(n, p) \<in> set (project_sites (seed_projects rows s)). visible p) \<and>
      (distinct (map Project_Name rows) \<longrightarrow>
         project_sites (seed_projects rows s) =
           map (\<lambda>row. (Project_Name row,
                  \<lparr>lat = P_Latitude row, lon = P_Longitude row, visible = True\<rparr>)) rows) \<and>
      competitor_visibility (seed_projects rows s) = competitor_visibility s \<and>
      all_competitors (seed_projects rows s) = all_competitors s \<and>
      last_radius (seed_projects rows s) = last_radius s)"
proof (cases "project_sites s = []")
  case True
  have "\<forall>(n, p) \<in> set (insert_projects rows []). visible p"
    by (rule insert_projects_visible) simp
  moreover have "fst ` set (insert_projects rows []) = Project_Name ` set rows"
    by (simp add: keys_insert_projects)
  moreover have "distinct (map Project_Name rows) \<Longrightarrow> insert_projects rows [] =
           map (\<lambda>row. (Project_Name row,
                  \<lparr>lat = P_Latitude row, lon = P_Longitude row, visible = True\<rparr>)) rows"
    using insert_projects_distinct [of rows "[]"] by simp
  ultimately show ?thesis
    using True by (simp add: seed_projects_def)
next
  case False
  then show ?thesis by (simp add: seed_projects_def)
qed

theorem seed_projects_first_load_only_witness:
  "seed_projects example_project_rows example_session = example_session \<and>
   project_sites (seed_projects example_project_rows initial_session) =
     [(''P'', \<lparr>lat = Num 0, lon = Num 0, visible = True\<rparr>),
      (''Q'', \<lparr>lat = Num 0, lon = Num 180, visible = True\<rparr>)]"
proof -
  have a: "project_sites example_session \<noteq> []" by (simp add: example_session_def)
  have b: "project_sites initial_session = []" by (simp add: initial_session_def)
  have c: "distinct (map Project_Name example_project_rows)"
    by (simp add: example_project_rows_def)
  from seed_projects_first_load_only [of example_session example_project_rows] a
  have 1: "seed_projects example_project_rows example_session = example_session" by blast
  from seed_projects_first_load_only [of initial_session example_project_rows] b c
  have "project_sites (seed_projects example_project_rows initial_session) =
           map (\<lambda>row. (Project_Name row,
                  \<lparr>lat = P_Latitude row, lon = P_Longitude row, visible = True\<rparr>))
             example_project_rows" by blast
  with 1 show ?thesis by (simp add: example_project_rows_def)
qed

text \<open>
  Claim C10. When the button "Add Project" is pressed, the entry of the name typed is set
  to the coordinates typed and \<open>visible = True\<close>, whether the name is new, already there
  or empty; the other entries are as before.
\<close>

theorem add_project_sets_entry:
  "add_project_button u \<Longrightarrow>
   map_of (project_sites (fst (add_project_section u s))) =
     (map_of (project_sites s))
       (new_name u \<mapsto> \<lparr>lat = Num (new_lat u), lon = Num (new_lon u), visible = True\<rparr>)"
  by (simp add: add_project_section_def add_project_def update_conv')

theorem add_project_sets_entry_witness:
  "add_project_button example_ui \<and>
   map_of (project_sites (fst (add_project_section example_ui initial_session))) ''X'' =
     Some \<lparr>lat = Num 40, lon = Num (- 75), visible = True\<rparr>"
proof -
  have h: "add_project_button example_ui" by (simp add: example_ui_def)
  from add_project_sets_entry [OF h, of initial_session] h show ?thesis
    by (simp add: example_ui_def)
qed

lemma has_columns_iff: "has_columns required cols \<longleftrightarrow> set required \<subseteq> set cols"
  by (auto simp: has_columns_def list_all_iff)

text \<open>
  Claim C4. When the Companies sheet lacks one of its four required columns, or the
  Projects sheet one of its three, the load section shows the error of the sheet at fault
  and returns the session as it was.
\<close>

theorem missing_columns_no_mutation:
  assumes "uploaded_file u = Some (Inr (companies, projects))"
    and "\<not> set required_cols \<subseteq> set (c_columns companies) \<or>
         \<not> set required_project_cols \<subseteq> set (p_columns projects)"
  shows "fst (load_data u s) = s \<and>
         (snd (load_data u s) = [Error_companies_columns] \<or>
          snd (load_data u s) = [Error_projects_columns])"
  using assms by (auto simp: load_data_def has_columns_iff)

theorem missing_columns_no_mutation_witness:
  "fst (load_data missing_column_ui example_session) = example_session \<and>
   snd (load_data missing_column_ui example_session) = [Error_companies_columns]"
proof -
  let ?companies = "\<lparr>c_columns = [''Company Location'', ''Latitude'', ''Longitude''],
                    c_rows = example_rows\<rparr>"
  let ?projects = "\<lparr>p_columns = required_project_cols, p_rows = example_project_rows\<rparr>"
  have a: "uploaded_file missing_column_ui = Some (Inr (?companies, ?projects))"
    by (simp add: missing_column_ui_def)
  have b: "\<not> set required_cols \<subseteq> set (c_columns ?companies) \<or>
           \<not> set required_project_cols \<subseteq> set (p_columns ?projects)"
    by (simp add: required_cols_def)
  have c: "snd (load_data missing_column_ui example_session) \<noteq> [Error_projects_columns]"
    by (simp add: load_data_def a has_columns_def required_cols_def)
  from missing_columns_no_mutation [OF a b, of example_session] c show ?thesis by blast
qed

text \<open>
  Claim C2. When the radius asked for is the radius last applied, the radius step returns
  the session as it was, whatever the mode, the sheet and the flags are (also when the
  distance column of line 97 raises).
\<close>

theorem same_radius_no_recompute:
  "radius_miles = last_radius s \<Longrightarrow> fst (radius_step m radius_miles rows s) = s"
  by (simp add: radius_step_def split: option.splits sum.splits)

theorem same_radius_no_recompute_witness:
  "10 = last_radius example_session \<and>
   competitor_visibility example_session ''A'' = Some False \<and>
   fst (radius_step Companies_Within_Radius_of_Project 10 example_rows example_session) =
     example_session"
proof -
  have h: "10 = last_radius example_session" by (simp add: example_session_def)
  have a: "competitor_visibility example_session ''A'' = Some False"
    by (simp add: example_session_def)
  from same_radius_no_recompute [OF h, of Companies_Within_Radius_of_Project example_rows] h a
  show ?thesis by blast
qed

lemma filter_first:
  "filter P xs \<noteq> [] \<Longrightarrow>
   \<exists>pre x post. xs = pre @ x # post \<and> P x \<and> (\<forall>y \<in> set pre. \<not> P y) \<and> hd (filter P xs) = x"
proof (induction xs)
  case Nil
  then show ?case by simp
next
  case (Cons a xs)
  show ?case
  proof (cases "P a")
    case True
    then have "a # xs = [] @ a # xs \<and> P a \<and> (\<forall>y \<in> set []. \<not> P y) \<and> hd (filter P (a # xs)) = a"
      by simp
    then show ?thesis by blast
  next
    case False
    with Cons obtain pre x post where
      "xs = pre @ x # post" "P x" "\<forall>y \<in> set pre. \<not> P y" "hd (filter P xs) = x"
      by auto
    with False have "a # xs = (a # pre) @ x # post \<and> P x \<and> (\<forall>y \<in> set (a # pre). \<not> P y)
        \<and> hd (filter P (a # xs)) = x"
      by simp
    then show ?thesis by blast
  qed
qed

text \<open>
  Claim C6. In the mode "Companies Within Radius of Project", with no visible project the
  radius step returns the session as it was and raises nothing. With a visible project,
  the selected project is the first visible one in the order of the dict: every project
  before it is hidden; its entry is the one looked up for the reference coordinates.
\<close>

theorem no_visible_project_no_recompute:
  "(visible_projects (project_sites s) = [] \<longrightarrow>
      radius_step Companies_Within_Radius_of_Project radius_miles rows s = (s, None)) \<and>
   (visible_projects sites \<noteq> [] \<longrightarrow>
      (\<exists>pre n p post. sites = pre @ (n, p) # post \<and> visible p \<and>
         (\<forall>(k, v) \<in> set pre. \<not> visible v) \<and>
         selected_project Companies_Within_Radius_of_Project sites = Some n \<and>
         (distinct (map fst sites) \<longrightarrow> map_of sites n = Some p)))"
proof (intro conjI impI)
  assume "visible_projects (project_sites s) = []"
  then show "radius_step Companies_Within_Radius_of_Project radius_miles rows s = (s, None)"
    by (simp add: radius_step_def selected_project_def)
next
  assume "visible_projects sites \<noteq> []"
  then have "filter (\<lambda>(p, v). visible v) sites \<noteq> []"
    by (simp add: visible_projects_def)
  from filter_first [OF this] obtain pre x post where
    x: "sites = pre @ x # post" "(\<lambda>(p, v). visible v) x"
       "\<forall>y \<in> set pre. \<not> (\<lambda>(p, v). visible v) y"
       "hd (filter (\<lambda>(p, v). visible v) sites) = x"
    by blast
  obtain n p where np: "x = (n, p)" by (cases x)
  have sel: "selected_project Companies_Within_Radius_of_Project sites = Some n"
    using \<open>visible_projects sites \<noteq> []\<close> x(4) np
    by (simp add: selected_project_def visible_projects_def hd_map)
  have "map_of sites n = Some p" if "distinct (map fst sites)"
    by (rule map_of_is_SomeI [OF that]) (simp add: x(1) np)
  with x np sel show "\<exists>pre n p post. sites = pre @ (n, p) # post \<and> visible p \<and>
         (\<forall>(k, v) \<in> set pre. \<not> visible v) \<and>
         selected_project Companies_Within_Radius_of_Project sites = Some n \<and>
         (distinct (map fst sites) \<longrightarrow> map_of sites n = Some p)"
    by (intro exI [of _ pre] exI [of _ n] exI [of _ p] exI [of _ post]) auto
qed

theorem no_visible_project_no_recompute_witness:
  "radius_step Companies_Within_Radius_of_Project 25 example_rows initial_session =
     (initial_session, None) \<and>
   selected_project Companies_Within_Radius_of_Project
     [(''P'', \<lparr>lat = Num 0, lon = Num 0, visible = False\<rparr>),
      (''Q'', \<lparr>lat = Num 0, lon = Num 180, visible = True\<rparr>)] = Some ''Q''"
proof -
  let ?sites = "[(''P'', \<lparr>lat = Num 0, lon = Num 0, visible = False\<rparr>),
      (''Q'', \<lparr>lat = Num 0, lon = Num 180, visible = True\<rparr>)]"
  have a: "visible_projects (project_sites initial_session) = []"
    by (simp add: initial_session_def visible_projects_def)
  have b: "visible_projects ?sites \<noteq> []"
    by (simp add: visible_projects_def)
  from no_visible_project_no_recompute [of initial_session 25 example_rows ?sites] a b
  obtain pre n p post where
    x: "radius_step Companies_Within_Radius_of_Project 25 example_rows initial_session =
          (initial_session, None)"
       "?sites = pre @ (n, p) # post" "visible p" "\<forall>(k, v) \<in> set pre. \<not> visible v"
       "selected_project Companies_Within_Radius_of_Project ?sites = Some n"
    by blast
  have "n = ''Q''"
  proof (cases pre)
    case Nil
    with x(2,3) show ?thesis by auto
  next
    case (Cons a pre')
    with x(2) have "a = (''P'', \<lparr>lat = Num 0, lon = Num 0, visible = False\<rparr>)"
      "pre' @ (n, p) # post = [(''Q'', \<lparr>lat = Num 0, lon = Num 180, visible = True\<rparr>)]"
      by simp_all
    then show ?thesis by (cases pre') simp_all
  qed
  with x show ?thesis by simp
qed

section \<open>Toggles and company entries\<close>

subsection \<open>The bodies of the two buttons\<close>

lemma set_group_apply:
  "set_group b grp cv c = (if c \<in> Company_Location ` set grp then Some b else cv c)"
  by (induction grp arbitrary: cv) auto

lemma all_checked_iff:
  "all_checked grp cv \<longleftrightarrow> (\<forall>row \<in> set grp. shown cv (Company_Location row))"
  by (simp add: all_checked_def list_all_iff)

lemma group_toggle_apply:
  "group_toggle grp cv c =
     (if c \<in> Company_Location ` set grp then Some (\<not> all_checked grp cv) else cv c)"
  by (simp add: group_toggle_def set_group_apply)

lemma global_toggle_apply:
  "competitor_visibility (global_toggle s) c =
     (if c \<in> all_competitors s then Some (\<not> global_all_on s) else competitor_visibility s c)"
  by (simp add: global_toggle_def)

lemma all_checked_cong:
  "(\<And>row. row \<in> set grp \<Longrightarrow> cv' (Company_Location row) = cv (Company_Location row)) \<Longrightarrow>
   all_checked grp cv' = all_checked grp cv"
  by (simp add: all_checked_iff shown_def)

subsection \<open>The checkboxes of one group\<close>

lemma company_checkboxes_fresh:
  "distinct (map Company_Location grp) \<Longrightarrow> Company_Location ` set grp \<inter> set seen = {} \<Longrightarrow>
   \<exists>cv' seen'. company_checkboxes u grp (cv, seen) = ((cv', seen'), None) \<and>
     set seen' = Company_Location ` set grp \<union> set seen \<and>
     (\<forall>c. cv' c = (if c \<in> Company_Location ` set grp
                   then Some (toggle_checkbox u c (shown cv c)) else cv c))"
proof (induction grp arbitrary: cv seen)
  case Nil
  then show ?case by simp
next
  case (Cons row grp)
  let ?c = "Company_Location row"
  let ?cv = "cv(?c \<mapsto> toggle_checkbox u ?c (shown cv ?c))"
  from Cons.prems have fresh: "?c \<notin> set seen" and notin: "?c \<notin> Company_Location ` set grp"
    and d: "distinct (map Company_Location grp)"
    and disj: "Company_Location ` set grp \<inter> set (?c # seen) = {}"
    by auto
  from Cons.IH [OF d disj, of ?cv] obtain cv' seen' where
    r: "company_checkboxes u grp (?cv, ?c # seen) = ((cv', seen'), None)"
       "set seen' = Company_Location ` set grp \<union> set (?c # seen)"
       "\<forall>c. cv' c = (if c \<in> Company_Location ` set grp
                   then Some (toggle_checkbox u c (shown ?cv c)) else ?cv c)"
    by blast
  have "company_checkboxes u (row # grp) (cv, seen) = ((cv', seen'), None)"
    using fresh r(1) by (simp add: Let_def)
  moreover have "set seen' = Company_Location ` set (row # grp) \<union> set seen"
    using r(2) by auto
  moreover have "\<forall>c. cv' c = (if c \<in> Company_Location ` set (row # grp)
                   then Some (toggle_checkbox u c (shown cv c)) else cv c)"
    using r(3) notin by (auto simp: shown_def)
  ultimately show ?case by blast
qed

lemma group_section_fresh:
  assumes "distinct (map Company_Location grp)" "Company_Location ` set grp \<inter> set seen = {}"
  shows "\<exists>cv' seen'. group_section u company grp (cv, seen) = ((cv', seen'), None) \<and>
     set seen' = Company_Location ` set grp \<union> set seen \<and>
     (\<forall>c. cv' c = (if c \<in> Company_Location ` set grp
                   then Some (toggle_checkbox u c
                     (if group_button u company (all_checked grp cv) then \<not> all_checked grp cv
                      else shown cv c))
                   else cv c))"
proof -
  let ?cv1 = "if group_button u company (all_checked grp cv) then group_toggle grp cv else cv"
  from company_checkboxes_fresh [OF assms, of u ?cv1] obtain cv' seen' where
    r: "company_checkboxes u grp (?cv1, seen) = ((cv', seen'), None)"
       "set seen' = Company_Location ` set grp \<union> set seen"
       "\<forall>c. cv' c = (if c \<in> Company_Location ` set grp
                   then Some (toggle_checkbox u c (shown ?cv1 c)) else ?cv1 c)"
    by blast
  have "group_section u company grp (cv, seen) = ((cv', seen'), None)"
    using r(1) by (simp add: group_section_def Let_def)
  moreover have "\<forall>c. cv' c = (if c \<in> Company_Location ` set grp
                   then Some (toggle_checkbox u c
                     (if group_button u company (all_checked grp cv) then \<not> all_checked grp cv
                      else shown cv c))
                   else cv c)"
    using r(3) by (auto simp: group_toggle_apply shown_def)
  ultimately show ?thesis using r(2) by blast
qed

subsection \<open>The groups in turn\<close>

lemma group_sections_fresh:
  "distinct (map Company_Location (concat (map snd gs))) \<Longrightarrow>
   Company_Location ` set (concat (map snd gs)) \<inter> set seen = {} \<Longrightarrow>
   \<exists>cv' seen'. group_sections u gs (cv, seen) = ((cv', seen'), None) \<and>
     (\<forall>(company, grp) \<in> set gs. \<forall>row \<in> set grp.
        cv' (Company_Location row) =
          Some (toggle_checkbox u (Company_Location row)
            (if group_button u company (all_checked grp cv) then \<not> all_checked grp cv
             else shown cv (Company_Location row)))) \<and>
     (\<forall>c. c \<notin> Company_Location ` set (concat (map snd gs)) \<longrightarrow> cv' c = cv c)"
proof (induction gs arbitrary: cv seen)
  case Nil
  then show ?case by simp
next
  case (Cons g gs)
  obtain company grp where g: "g = (company, grp)" by (cases g)
  let ?rest = "concat (map snd gs)"
  from Cons.prems have dg: "distinct (map Company_Location grp)"
    and dr: "distinct (map Company_Location ?rest)"
    and apart: "Company_Location ` set grp \<inter> Company_Location ` set ?rest = {}"
    and fg: "Company_Location ` set grp \<inter> set seen = {}"
    and fr: "Company_Location ` set ?rest \<inter> set seen = {}"
    by (auto simp: g)
  from group_section_fresh [OF dg fg, of u company cv] obtain cv1 seen1 where
    s1: "group_section u company grp (cv, seen) = ((cv1, seen1), None)"
        "set seen1 = Company_Location ` set grp \<union> set seen"
        "\<forall>c. cv1 c = (if c \<in> Company_Location ` set grp
                   then Some (toggle_checkbox u c
                     (if group_button u company (all_checked grp cv) then \<not> all_checked grp cv
                      else shown cv c))
                   else cv c)"
    by blast
  have fr1: "Company_Location ` set ?rest \<inter> set seen1 = {}"
    unfolding s1(2) using apart fr by blast
  from Cons.IH [OF dr fr1, of cv1] obtain cv' seen' where
    s2: "group_sections u gs (cv1, seen1) = ((cv', seen'), None)"
        "\<forall>(company, grp) \<in> set gs. \<forall>row \<in> set grp.
           cv' (Company_Location row) =
             Some (toggle_checkbox u (Company_Location row)
               (if group_button u company (all_checked grp cv1) then \<not> all_checked grp cv1
                else shown cv1 (Company_Location row)))"
        "\<forall>c. c \<notin> Company_Location ` set ?rest \<longrightarrow> cv' c = cv1 c"
    by blast
  have same: "cv1 (Company_Location row) = cv (Company_Location row)"
    if "row \<in> set ?rest" for row
    using that apart s1(3) by auto
  have run: "group_sections u (g # gs) (cv, seen) = ((cv', seen'), None)"
    using s1(1) s2(1) by (simp add: g)
  have first: "cv' (Company_Location row) =
          Some (toggle_checkbox u (Company_Location row)
            (if group_button u company (all_checked grp cv) then \<not> all_checked grp cv
             else shown cv (Company_Location row)))" if "row \<in> set grp" for row
  proof -
    from that apart have "Company_Location row \<notin> Company_Location ` set ?rest" by auto
    with s2(3) have "cv' (Company_Location row) = cv1 (Company_Location row)" by blast
    with s1(3) that show ?thesis by auto
  qed
  have later: "cv' (Company_Location row) =
          Some (toggle_checkbox u (Company_Location row)
            (if group_button u company' (all_checked grp' cv) then \<not> all_checked grp' cv
             else shown cv (Company_Location row)))"
    if "(company', grp') \<in> set gs" "row \<in> set grp'" for company' grp' row
  proof -
    have in_rest: "r \<in> set ?rest" if "r \<in> set grp'" for r
      using that \<open>(company', grp') \<in> set gs\<close> by force
    have "all_checked grp' cv1 = all_checked grp' cv"
      by (rule all_checked_cong) (rule same, rule in_rest)
    moreover have "shown cv1 (Company_Location row) = shown cv (Company_Location row)"
      using same [OF in_rest [OF that(2)]] by (simp add: shown_def)
    ultimately show ?thesis
      using s2(2) that by fastforce
  qed
  have other: "cv' c = cv c" if "c \<notin> Company_Location ` set (concat (map snd (g # gs)))" for c
  proof -
    from that have "c \<notin> Company_Location ` set grp" "c \<notin> Company_Location ` set ?rest"
      by (auto simp: g)
    with s1(3) s2(3) show ?thesis by auto
  qed
  show ?case
    using run first later other by (auto simp: g)
qed

lemma distinct_concat_filter:
  "distinct (map f xs) \<Longrightarrow> distinct ns \<Longrightarrow>
   distinct (map f (concat (map (\<lambda>n. filter (\<lambda>r. g r = n) xs) ns)))"
proof (induction ns)
  case Nil
  then show ?case by simp
next
  case (Cons n ns)
  have inj: "inj_on f (set xs)"
    using Cons.prems(1) by (simp add: distinct_map)
  have "f ` set (filter (\<lambda>r. g r = n) xs) \<inter>
        f ` set (concat (map (\<lambda>n. filter (\<lambda>r. g r = n) xs) ns)) = {}"
  proof (rule ccontr)
    assume "\<not> ?thesis"
    then obtain r r' where r: "r \<in> set xs" "g r = n" "r' \<in> set xs" "g r' \<in> set ns" "f r = f r'"
      by auto
    with inj have "r = r'" by (auto dest: inj_onD)
    with r Cons.prems(2) show False by auto
  qed
  moreover have "distinct (map f (filter (\<lambda>r. g r = n) xs))"
    using Cons.prems(1) by (rule distinct_map_filter)
  moreover have "distinct (map f (concat (map (\<lambda>n. filter (\<lambda>r. g r = n) xs) ns)))"
    using Cons by simp
  ultimately show ?case by simp
qed

lemma grouped_rows:
  "concat (map snd (grouped rows)) =
     concat (map (\<lambda>n. filter (\<lambda>r. Company_Name r = n) rows) (sort (remdups (map Company_Name rows))))"
  by (simp add: grouped_def comp_def)

lemma grouped_distinct:
  "distinct (map Company_Location rows) \<Longrightarrow>
   distinct (map Company_Location (concat (map snd (grouped rows))))"
  unfolding grouped_rows by (rule distinct_concat_filter) simp_all

lemma grouped_member:
  "row \<in> set rows \<Longrightarrow>
   (Company_Name row, filter (\<lambda>r. Company_Name r = Company_Name row) rows) \<in> set (grouped rows)"
  by (auto simp: grouped_def)

lemma toggles_fresh:
  assumes "distinct (map Company_Location rows)"
  shows "snd (toggles u rows s) = None \<and>
    (\<forall>row \<in> set rows.
       competitor_visibility (fst (toggles u rows s)) (Company_Location row) =
         Some (toggle_checkbox u (Company_Location row)
           (if group_button u (Company_Name row)
                 (all_checked (filter (\<lambda>r. Company_Name r = Company_Name row) rows)
                    (competitor_visibility (global_section u s)))
            then \<not> all_checked (filter (\<lambda>r. Company_Name r = Company_Name row) rows)
                    (competitor_visibility (global_section u s))
            else shown (competitor_visibility (global_section u s)) (Company_Location row))))"
proof -
  let ?cv = "competitor_visibility (global_section u s)"
  from group_sections_fresh [OF grouped_distinct [OF assms], of "[]" u ?cv] obtain cv' seen' where
    r: "group_sections u (grouped rows) (?cv, []) = ((cv', seen'), None)"
       "\<forall>(company, grp) \<in> set (grouped rows). \<forall>row \<in> set grp.
        cv' (Company_Location row) =
          Some (toggle_checkbox u (Company_Location row)
            (if group_button u company (all_checked grp ?cv) then \<not> all_checked grp ?cv
             else shown ?cv (Company_Location row)))"
    by auto
  have t: "toggles u rows s = ((global_section u s)\<lparr>competitor_visibility := cv'\<rparr>, None)"
    using r(1) by (simp add: toggles_def Let_def)
  show ?thesis
  proof (intro conjI ballI)
    show "snd (toggles u rows s) = None" by (simp add: t)
  next
    fix row assume row: "row \<in> set rows"
    let ?grp = "filter (\<lambda>r. Company_Name r = Company_Name row) rows"
    have "(Company_Name row, ?grp) \<in> set (grouped rows)" using row by (rule grouped_member)
    moreover have "row \<in> set ?grp" using row by simp
    ultimately have "cv' (Company_Location row) =
          Some (toggle_checkbox u (Company_Location row)
            (if group_button u (Company_Name row) (all_checked ?grp ?cv) then \<not> all_checked ?grp ?cv
             else shown ?cv (Company_Location row)))"
      using r(2) by fast
    then show "competitor_visibility (fst (toggles u rows s)) (Company_Location row) =
         Some (toggle_checkbox u (Company_Location row)
           (if group_button u (Company_Name row) (all_checked ?grp ?cv)
            then \<not> all_checked ?grp ?cv
            else shown ?cv (Company_Location row)))"
      by (simp add: t)
  qed
qed

subsection \<open>Seeding companies\<close>

lemma seed_companies_cv:
  "competitor_visibility (seed_companies rows s) c =
     (if c \<in> Company_Location ` set rows \<and> competitor_visibility s c = None then Some True
      else competitor_visibility s c)"
  by (induction rows arbitrary: s) (auto simp: Let_def)

lemma seed_companies_all:
  "all_competitors (seed_companies rows s) = all_competitors s \<union> Company_Location ` set rows"
  by (induction rows arbitrary: s) (auto simp: Let_def)

lemma seed_companies_sites [simp]:
  "project_sites (seed_companies rows s) = project_sites s"
  by (induction rows arbitrary: s) (auto simp: Let_def)

lemma seed_companies_radius [simp]:
  "last_radius (seed_companies rows s) = last_radius s"
  by (induction rows arbitrary: s) (auto simp: Let_def)

subsection \<open>No company entry is removed\<close>

lemma dom_recompute_companies: "dom cv \<subseteq> dom (recompute_companies r zs cv)"
proof (induction zs arbitrary: cv)
  case Nil
  then show ?case by simp
next
  case (Cons z zs)
  obtain row d where z: "z = (row, d)" by (cases z)
  have "dom cv \<subseteq> dom (cv(Company_Location row \<mapsto> d \<le> r))" by auto
  also have "\<dots> \<subseteq> dom (recompute_companies r zs (cv(Company_Location row \<mapsto> d \<le> r)))"
    by (rule Cons.IH)
  finally show ?case by (simp add: z)
qed

lemma dom_radius_step:
  "dom (competitor_visibility s) \<subseteq> dom (competitor_visibility (fst (radius_step m r rows s)))"
  using dom_recompute_companies
  by (auto simp: radius_step_def Let_def split: option.splits sum.splits prod.splits)

lemma dom_set_group: "dom cv \<subseteq> dom (set_group b grp cv)"
  by (auto simp: set_group_apply)

lemma dom_company_checkboxes:
  "dom cv \<subseteq> dom (fst (fst (company_checkboxes u grp (cv, seen))))"
proof (induction grp arbitrary: cv seen)
  case Nil
  then show ?case by simp
next
  case (Cons row grp)
  let ?c = "Company_Location row"
  let ?cv = "cv(?c \<mapsto> toggle_checkbox u ?c (shown cv ?c))"
  show ?case
  proof (cases "?c \<in> set seen")
    case True
    then show ?thesis by (simp add: Let_def)
  next
    case False
    have "dom cv \<subseteq> dom ?cv" by auto
    also have "\<dots> \<subseteq> dom (fst (fst (company_checkboxes u grp (?cv, ?c # seen))))"
      by (rule Cons.IH)
    finally show ?thesis using False by (simp add: Let_def)
  qed
qed

lemma dom_group_section:
  "dom (fst st) \<subseteq> dom (fst (fst (group_section u company grp st)))"
proof -
  let ?cv = "fst st"
  let ?cv1 = "if group_button u company (all_checked grp ?cv) then group_toggle grp ?cv else ?cv"
  have "dom ?cv \<subseteq> dom ?cv1"
    using dom_set_group [of ?cv "\<not> all_checked grp ?cv" grp] by (simp add: group_toggle_def)
  also have "\<dots> \<subseteq> dom (fst (fst (company_checkboxes u grp (?cv1, snd st))))"
    by (rule dom_company_checkboxes)
  finally show ?thesis by (simp add: group_section_def Let_def)
qed

lemma dom_group_sections:
  "dom (fst st) \<subseteq> dom (fst (fst (group_sections u gs st)))"
proof (induction gs arbitrary: st)
  case Nil
  then show ?case by simp
next
  case (Cons g gs)
  obtain company grp where g: "g = (company, grp)" by (cases g)
  obtain st' e where r: "group_section u company grp st = (st', e)"
    by (cases "group_section u company grp st")
  have a: "dom (fst st) \<subseteq> dom (fst st')"
    using dom_group_section [of st u company grp] by (simp add: r)
  show ?case
  proof (cases e)
    case None
    have "dom (fst st') \<subseteq> dom (fst (fst (group_sections u gs st')))" by (rule Cons.IH)
    with a None show ?thesis by (auto simp: g r)
  next
    case (Some x)
    with a show ?thesis by (simp add: g r)
  qed
qed

lemma dom_global_section:
  "dom (competitor_visibility s) \<subseteq> dom (competitor_visibility (global_section u s))"
  by (auto simp: global_section_def global_toggle_def)

lemma dom_toggles:
  "dom (competitor_visibility s) \<subseteq> dom (competitor_visibility (fst (toggles u rows s)))"
proof -
  have "dom (competitor_visibility s) \<subseteq> dom (competitor_visibility (global_section u s))"
    by (rule dom_global_section)
  also have "\<dots> \<subseteq> dom (fst (fst (group_sections u (grouped rows)
      (competitor_visibility (global_section u s), []))))"
    using dom_group_sections [of "(competitor_visibility (global_section u s), [])"] by simp
  finally show ?thesis by (simp add: toggles_def Let_def case_prod_beta)
qed

lemma cv_seed_projects [simp]:
  "competitor_visibility (seed_projects rows s) = competitor_visibility s"
  by (simp add: seed_projects_def)

lemma cv_manage_project_sites [simp]:
  "competitor_visibility (manage_project_sites u s) = competitor_visibility s"
  by (simp add: manage_project_sites_def split: prod.splits)

lemma dom_seed_companies:
  "dom (competitor_visibility s) \<subseteq> dom (competitor_visibility (seed_companies rows s))"
  by (auto simp: seed_companies_cv)

lemma process_cases:
  "process u companies projects s =
     (let s3 = seeded u companies projects s;
          r = radius_step (mode u) (radius_manual u) (c_rows companies) s3
      in case snd r of
           Some x \<Rightarrow> (fst r, Some x)
         | None \<Rightarrow>
             (let t = toggles u (c_rows companies) (fst r)
              in case snd t of
                   Some x \<Rightarrow> (fst t, Some x)
                 | None \<Rightarrow> (fst t, draw_map (visible_df (c_rows companies) (fst r))
                                     (project_sites (fst t)))))"
  by (simp add: process_def seeded_def Let_def case_prod_beta split: option.splits)

lemma fst_process:
  "fst (process u companies projects s) =
     (let r = radius_step (mode u) (radius_manual u) (c_rows companies)
                (seeded u companies projects s)
      in case snd r of
           Some x \<Rightarrow> fst r
         | None \<Rightarrow> fst (toggles u (c_rows companies) (fst r)))"
  by (simp add: process_cases Let_def split: option.splits)

lemma dom_process_seeded:
  "dom (competitor_visibility (seeded u companies projects s))
     \<subseteq> dom (competitor_visibility (fst (process u companies projects s)))"
proof -
  let ?s3 = "seeded u companies projects s"
  let ?r = "radius_step (mode u) (radius_manual u) (c_rows companies) ?s3"
  have a: "dom (competitor_visibility ?s3) \<subseteq> dom (competitor_visibility (fst ?r))"
    by (rule dom_radius_step)
  show ?thesis
  proof (cases "snd ?r")
    case None
    have "dom (competitor_visibility (fst ?r))
        \<subseteq> dom (competitor_visibility (fst (toggles u (c_rows companies) (fst ?r))))"
      by (rule dom_toggles)
    with a None show ?thesis by (simp add: fst_process Let_def)
  next
    case (Some x)
    with a show ?thesis by (simp add: fst_process Let_def)
  qed
qed

lemma dom_process:
  "dom (competitor_visibility s) \<subseteq> dom (competitor_visibility (fst (process u companies projects s)))"
proof -
  have "dom (competitor_visibility s) \<subseteq> dom (competitor_visibility (seeded u companies projects s))"
    using dom_seed_companies [of "manage_project_sites u (seed_projects (p_rows projects) s)"]
    by (simp add: seeded_def)
  with dom_process_seeded show ?thesis by blast
qed

lemma dom_load_data:
  "dom (competitor_visibility s) \<subseteq> dom (competitor_visibility (fst (load_data u s)))"
proof (cases "uploaded_file u")
  case None
  then show ?thesis by (simp add: load_data_def)
next
  case (Some f)
  show ?thesis
  proof (cases f)
    case (Inl e)
    with Some show ?thesis by (simp add: load_data_def)
  next
    case (Inr dfs)
    obtain companies projects where dfs: "dfs = (companies, projects)" by (cases dfs)
    show ?thesis
      using dom_process [of s u companies projects] Some Inr dfs
      by (auto simp: load_data_def split: prod.splits option.splits)
  qed
qed

lemma dom_script:
  "dom (competitor_visibility s) \<subseteq> dom (competitor_visibility (fst (script u s)))"
proof -
  have "competitor_visibility (fst (add_project_section u s)) = competitor_visibility s"
    by (simp add: add_project_section_def add_project_def)
  then show ?thesis
    using dom_load_data [of "fst (add_project_section u s)" u]
    by (simp add: script_def case_prod_beta)
qed

text \<open>
  Claim C8. After the seeding of lines 84 to 88 every location of the sheet has an entry,
  which is \<open>True\<close> when the location had none; the entry is still there at the end of
  the processing of the sheet; and a whole pass of the script never removes an entry of
  \<open>competitor_visibility\<close>.
\<close>

text \<open>
  Claim C8. After the seeding of lines 84 to 88 every location of the sheet has an entry,
  which is \<open>True\<close> when the location had none; the entry is still there at the end of
  the processing of the sheet, raised exception or not; and a whole pass of the script never
  removes an entry of \<open>competitor_visibility\<close>.
\<close>

theorem company_entries_seeded_and_kept:
  "(\<forall>row \<in> set rows.
      \<exists>b. competitor_visibility (seed_companies rows s) (Company_Location row) = Some b \<and>
          (competitor_visibility s (Company_Location row) = None \<longrightarrow> b)) \<and>
   (\<forall>row \<in> set (c_rows companies).
      Company_Location row \<in> dom (competitor_visibility (fst (process u companies projects s)))) \<and>
   dom (competitor_visibility s) \<subseteq> dom (competitor_visibility (fst (script u s)))"
proof (intro conjI ballI)
  fix row assume "row \<in> set rows"
  then show "\<exists>b. competitor_visibility (seed_companies rows s) (Company_Location row) = Some b \<and>
          (competitor_visibility s (Company_Location row) = None \<longrightarrow> b)"
    by (cases "competitor_visibility s (Company_Location row)") (auto simp: seed_companies_cv)
next
  fix row assume "row \<in> set (c_rows companies)"
  then have "Company_Location row \<in> dom (competitor_visibility (seeded u companies projects s))"
    by (auto simp: seeded_def seed_companies_cv)
  with dom_process_seeded show
    "Company_Location row \<in> dom (competitor_visibility (fst (process u companies projects s)))"
    by blast
next
  show "dom (competitor_visibility s) \<subseteq> dom (competitor_visibility (fst (script u s)))"
    by (rule dom_script)
qed

theorem company_entries_seeded_and_kept_witness:
  "competitor_visibility (seed_companies example_rows initial_session) ''A'' = Some True \<and>
   ''B'' \<in> dom (competitor_visibility (fst (script example_ui example_session)))"
proof -
  note t = company_entries_seeded_and_kept [of example_rows initial_session]
  note t' = company_entries_seeded_and_kept [of _ example_session _ example_ui]
  have a: "\<lparr>Company_Location = ''A'', Latitude = Num 0, Longitude = Num 0,
            Company_Name = ''Acme''\<rparr> \<in> set example_rows"
    by (simp add: example_rows_def)
  have b: "competitor_visibility initial_session ''A'' = None"
    by (simp add: initial_session_def)
  have c: "''B'' \<in> dom (competitor_visibility example_session)"
    by (simp add: example_session_def)
  from t a b have "competitor_visibility (seed_companies example_rows initial_session) ''A'' = Some True"
    by force
  moreover from t' c have "''B'' \<in> dom (competitor_visibility (fst (script example_ui example_session)))"
    by blast
  ultimately show ?thesis by simp
qed

subsection \<open>The bulk toggles in a pass\<close>

lemma bulk_toggle_bodies:
  "(\<forall>c \<in> all_competitors s.
      competitor_visibility (global_toggle s) c =
        Some (\<not> (\<forall>c' \<in> all_competitors s. shown (competitor_visibility s) c'))) \<and>
   (\<forall>row \<in> set grp.
      group_toggle grp cv (Company_Location row) =
        Some (\<not> (\<forall>row' \<in> set grp. shown cv (Company_Location row'))))"
  by (simp add: global_toggle_apply global_all_on_def group_toggle_apply all_checked_iff)

lemma quiet_pass_is_toggles:
  "fst (script deselect_ui all_on_session) = fst (toggles deselect_ui example_rows all_on_session)"
proof -
  let ?companies = "\<lparr>c_columns = required_cols, c_rows = example_rows\<rparr>"
  let ?projects = "\<lparr>p_columns = required_project_cols, p_rows = example_project_rows\<rparr>"
  have s3: "seeded deselect_ui ?companies ?projects all_on_session = all_on_session"
    by (auto simp: seeded_def seed_projects_def manage_project_sites_def all_on_session_def
        example_session_def deselect_ui_def example_ui_def echo_def example_rows_def Let_def)
  have r: "radius_step (mode deselect_ui) (radius_manual deselect_ui) example_rows all_on_session
      = (all_on_session, None)"
    by (simp add: radius_step_def selected_project_def deselect_ui_def)
  have "fst (process deselect_ui ?companies ?projects all_on_session)
      = fst (toggles deselect_ui example_rows all_on_session)"
    by (simp add: fst_process s3 r)
  moreover have "fst (script deselect_ui all_on_session)
      = fst (process deselect_ui ?companies ?projects all_on_session)"
    by (simp add: script_def add_project_section_def load_data_def deselect_ui_def example_ui_def
        has_columns_def required_cols_def required_project_cols_def case_prod_beta
        split: option.splits)
  ultimately show ?thesis by simp
qed

text \<open>
  Claim C3. The body of the global button writes to every member of \<open>all_competitors\<close>
  the negation of "all members are shown", and the body of a group button does the same
  for the rows of its group, where a missing entry counts as shown. The flags do not stay
  as written. With distinct location labels, at the end of the toggles of a pass the flag
  of each company of the sheet is what its checkbox of line 152 returns, and what the
  buttons wrote is only the \<open>value\<close> that checkbox is given. A checkbox that returns
  the state it holds rather than the value it is given undoes the click: in the sample pass
  every company is shown, "Deselect All (Acme)" is pressed, and every company is still
  shown at the end of the pass.
\<close>

theorem bulk_toggle_then_checkboxes:
  assumes "distinct (map Company_Location rows)"
  shows "(global_button u (global_all_on s) \<longrightarrow>
            (\<forall>c \<in> all_competitors s.
               competitor_visibility (global_section u s) c = Some (\<not> global_all_on s))) \<and>
         snd (toggles u rows s) = None \<and>
         (\<forall>row \<in> set rows.
            competitor_visibility (fst (toggles u rows s)) (Company_Location row) =
              Some (toggle_checkbox u (Company_Location row)
                (if group_button u (Company_Name row)
                      (all_checked (filter (\<lambda>r. Company_Name r = Company_Name row) rows)
                         (competitor_visibility (global_section u s)))
                 then \<not> all_checked (filter (\<lambda>r. Company_Name r = Company_Name row) rows)
                         (competitor_visibility (global_section u s))
                 else shown (competitor_visibility (global_section u s))
                        (Company_Location row))))"
  using toggles_fresh [OF assms, of u s]
  by (simp add: global_section_def global_toggle_apply)

theorem bulk_toggle_then_checkboxes_witness:
  "group_button deselect_ui ''Acme'' True \<and>
   all_checked example_rows (competitor_visibility all_on_session) \<and>
   group_toggle example_rows (competitor_visibility all_on_session) ''A'' = Some False \<and>
   competitor_visibility (fst (toggles deselect_ui example_rows all_on_session)) ''A'' = Some True \<and>
   competitor_visibility (fst (toggles deselect_ui example_rows all_on_session)) ''B'' = Some True \<and>
   competitor_visibility (fst (script deselect_ui all_on_session)) ''A'' = Some True"
proof -
  have d: "distinct (map Company_Location example_rows)"
    by (simp add: example_rows_def)
  have p: "group_button deselect_ui ''Acme'' True"
    by (simp add: deselect_ui_def)
  have a: "all_checked example_rows (competitor_visibility all_on_session)"
    by (simp add: all_checked_def example_rows_def all_on_session_def shown_def)
  have g: "group_toggle example_rows (competitor_visibility all_on_session) ''A'' = Some False"
    using a by (simp add: group_toggle_apply example_rows_def)
  have c: "toggle_checkbox deselect_ui key v = True" for key v
    by (simp add: deselect_ui_def)
  from bulk_toggle_then_checkboxes [OF d, of deselect_ui all_on_session]
  have "\<forall>row \<in> set example_rows.
      competitor_visibility (fst (toggles deselect_ui example_rows all_on_session))
        (Company_Location row) = Some True"
    by (simp add: c)
  then have t: "competitor_visibility (fst (toggles deselect_ui example_rows all_on_session)) ''A''
        = Some True"
      "competitor_visibility (fst (toggles deselect_ui example_rows all_on_session)) ''B''
        = Some True"
    by (simp_all add: example_rows_def)
  with p a g show ?thesis by (simp add: quiet_pass_is_toggles)
qed

section \<open>The radius recompute\<close>

lemma numeric_iff: "numeric c \<longleftrightarrow> (\<exists>x. c = Num x)"
  by (cases c) (simp_all add: numeric_def)

lemma haversine_total:
  assumes "numeric lat1" "numeric lon1" "numeric lat2" "numeric lon2"
  shows "\<exists>d. haversine lat1 lon1 lat2 lon2 = Inr d"
proof -
  from assms obtain a b c d where "lat1 = Num a" "lon1 = Num b" "lat2 = Num c" "lon2 = Num d"
    by (auto simp: numeric_iff)
  then show ?thesis by (simp only: haversine_Num) blast
qed

lemma distances_total:
  assumes "numeric la" "numeric lo"
    and "\<forall>row \<in> set rows. numeric (Latitude row) \<and> numeric (Longitude row)"
  shows "\<exists>ds. distances la lo rows = Inr ds \<and>
           list_all2 (\<lambda>row d. haversine la lo (Latitude row) (Longitude row) = Inr d) rows ds"
  using assms(3)
proof (induction rows)
  case Nil
  then show ?case by simp
next
  case (Cons row rows)
  then obtain ds where ds: "distances la lo rows = Inr ds"
    "list_all2 (\<lambda>row d. haversine la lo (Latitude row) (Longitude row) = Inr d) rows ds"
    by auto
  from Cons.prems assms(1,2) obtain d where d: "haversine la lo (Latitude row) (Longitude row) = Inr d"
    using haversine_total [of la lo "Latitude row" "Longitude row"] by auto
  from ds d show ?case by simp
qed

lemma recompute_companies_other:
  "c \<notin> Company_Location ` fst ` set zs \<Longrightarrow> recompute_companies r zs cv c = cv c"
  by (induction zs arbitrary: cv) auto

lemma recompute_companies_member:
  "distinct (map (\<lambda>z. Company_Location (fst z)) zs) \<Longrightarrow> (row, d) \<in> set zs \<Longrightarrow>
   recompute_companies r zs cv (Company_Location row) = Some (d \<le> r)"
proof (induction zs arbitrary: cv)
  case Nil
  then show ?case by simp
next
  case (Cons z zs)
  obtain row' d' where z: "z = (row', d')" by (cases z)
  show ?case
  proof (cases "(row, d) = z")
    case True
    with Cons.prems(1) have "Company_Location row \<notin> Company_Location ` fst ` set zs"
      by (auto simp: z)
    then show ?thesis
      using True by (simp add: z recompute_companies_other)
  next
    case False
    with Cons.prems have "(row, d) \<in> set zs" "distinct (map (\<lambda>z. Company_Location (fst z)) zs)"
      by auto
    from Cons.IH [OF this(2) this(1)] show ?thesis by (simp add: z)
  qed
qed

lemma recompute_projects_total:
  assumes "numeric la" "numeric lo"
    and "\<forall>(n, p) \<in> set sites. numeric (lat p) \<and> numeric (lon p)"
  shows "\<exists>sites'. recompute_projects la lo r sites = (sites', None) \<and>
           list_all2 (\<lambda>(n, p) (n', p'). n' = n \<and>
              (\<exists>d. haversine la lo (lat p) (lon p) = Inr d \<and> p' = p\<lparr>visible := d \<le> r\<rparr>))
             sites sites'"
  using assms(3)
proof (induction sites)
  case Nil
  then show ?case by simp
next
  case (Cons x sites)
  obtain n p where x: "x = (n, p)" by (cases x)
  from Cons obtain sites' where s': "recompute_projects la lo r sites = (sites', None)"
    "list_all2 (\<lambda>(n, p) (n', p'). n' = n \<and>
              (\<exists>d. haversine la lo (lat p) (lon p) = Inr d \<and> p' = p\<lparr>visible := d \<le> r\<rparr>))
             sites sites'"
    by auto
  from Cons.prems assms(1,2) obtain d where d: "haversine la lo (lat p) (lon p) = Inr d"
    using haversine_total [of la lo "lat p" "lon p"] by (auto simp: x)
  from s' d show ?case by (simp add: x)
qed

lemma list_all2_keys:
  "list_all2 (\<lambda>(n, p) (n', p'). n' = n \<and> Q p p') xs ys \<Longrightarrow> map fst ys = map fst xs"
  by (induction xs ys rule: list_all2_induct) auto

lemma list_all2_lookup:
  "list_all2 (\<lambda>(n, p) (n', p'). n' = n \<and> Q p p') xs ys \<Longrightarrow> distinct (map fst xs) \<Longrightarrow>
   (n, p) \<in> set xs \<Longrightarrow> \<exists>p'. map_of ys n = Some p' \<and> Q p p'"
proof (induction xs ys rule: list_all2_induct)
  case Nil
  then show ?case by simp
next
  case (Cons x xs y ys)
  obtain k v where x: "x = (k, v)" by (cases x)
  obtain k' v' where y: "y = (k', v')" by (cases y)
  from Cons.hyps(1) have kk: "k' = k" "Q v v'" by (simp_all add: x y)
  show ?case
  proof (cases "n = k")
    case True
    with Cons.prems have "p = v" by (force simp: x)
    with True kk show ?thesis by (simp add: y)
  next
    case False
    with Cons.prems have "(n, p) \<in> set xs" "distinct (map fst xs)" by (auto simp: x)
    from Cons.IH [OF this(2) this(1)] False kk show ?thesis by (simp add: y)
  qed
qed

subsection \<open>The keys of the project sites stay distinct\<close>

text \<open>
  A dict has each key once. The association list of a new session has no key at all, and
  a pass of the script keeps the keys distinct, so the recompute may assume it.
\<close>

lemma distinct_insert_projects:
  "distinct (map fst sites) \<Longrightarrow> distinct (map fst (insert_projects rows sites))"
  by (induction rows arbitrary: sites) (simp_all add: distinct_update)

lemma keys_project_checkboxes: "map fst (fst (project_checkboxes u sites)) = map fst sites"
  by (induction sites) (auto simp: case_prod_beta Let_def)

lemma distinct_delete_all:
  "distinct (map fst sites) \<Longrightarrow> distinct (map fst (delete_all names sites))"
  by (induction names arbitrary: sites) (simp_all add: distinct_delete)

lemma keys_recompute_projects:
  "map fst (fst (recompute_projects la lo r sites)) = map fst sites"
  by (induction sites) (auto simp: case_prod_beta Let_def split: sum.splits)

lemma keys_radius_step:
  "map fst (project_sites (fst (radius_step m r rows s))) = map fst (project_sites s)"
  using keys_recompute_projects
  by (auto simp: radius_step_def Let_def case_prod_beta split: option.splits sum.splits)

lemma sites_toggles: "project_sites (fst (toggles u rows s)) = project_sites s"
  by (simp add: toggles_def global_section_def global_toggle_def Let_def case_prod_beta)

lemma distinct_seeded:
  assumes "distinct (map fst (project_sites s))"
  shows "distinct (map fst (project_sites (seeded u companies projects s)))"
proof -
  have "distinct (map fst (project_sites (seed_projects (p_rows projects) s)))"
    using assms by (simp add: seed_projects_def distinct_insert_projects)
  then have "distinct (map fst (project_sites
      (manage_project_sites u (seed_projects (p_rows projects) s))))"
    using keys_project_checkboxes [of u "project_sites (seed_projects (p_rows projects) s)"]
    by (simp add: manage_project_sites_def case_prod_beta distinct_delete_all)
  then show ?thesis by (simp add: seeded_def)
qed

lemma distinct_process:
  assumes "distinct (map fst (project_sites s))"
  shows "distinct (map fst (project_sites (fst (process u companies projects s))))"
  using distinct_seeded [OF assms, of u companies projects]
  by (simp add: fst_process Let_def keys_radius_step sites_toggles split: option.splits)

lemma fst_load_data:
  "fst (load_data u s) = s \<or>
   (\<exists>companies projects. fst (load_data u s) = fst (process u companies projects s))"
proof (cases "uploaded_file u")
  case None
  then show ?thesis by (simp add: load_data_def)
next
  case (Some f)
  show ?thesis
  proof (cases f)
    case (Inl e)
    with Some show ?thesis by (simp add: load_data_def)
  next
    case (Inr dfs)
    obtain companies projects where dfs: "dfs = (companies, projects)" by (cases dfs)
    obtain s' e where p: "process u companies projects s = (s', e)"
      by (cases "process u companies projects s")
    have "fst (load_data u s) = s \<or> fst (load_data u s) = s'"
      using Some Inr dfs p by (cases e) (simp_all add: load_data_def)
    with p show ?thesis by (metis fst_conv)
  qed
qed

lemma script_keeps_keys_distinct:
  assumes "distinct (map fst (project_sites s))"
  shows "distinct (map fst (project_sites (fst (script u s))))"
proof -
  let ?s1 = "fst (add_project_section u s)"
  have 1: "distinct (map fst (project_sites ?s1))"
    using assms by (simp add: add_project_section_def add_project_def distinct_update)
  have "distinct (map fst (project_sites (fst (load_data u ?s1))))"
    using 1 distinct_process [OF 1, of u] fst_load_data [of u ?s1] by auto
  then show ?thesis by (simp add: script_def case_prod_beta)
qed

subsection \<open>The recompute\<close>

text \<open>
  Claim C1. In the mode "Companies Within Radius of Project", with a visible project and a
  radius other than the last applied, the radius step raises nothing and writes every flag:
  each company of the sheet is visible exactly when its distance from the selected project
  is at most the radius, and so is each project site; the last applied radius becomes the
  radius. The coordinates are numbers (a text cell raises instead), the location labels of
  the sheet are distinct, as the data model assumes, and so are the keys of the dict.
  Entries of locations that are not in the sheet are not written.
\<close>

theorem radius_recompute_overwrites:
  assumes vis: "visible_projects (project_sites s) \<noteq> []"
    and changed: "radius_miles \<noteq> last_radius s"
    and keys: "distinct (map fst (project_sites s))"
    and locs: "distinct (map Company_Location rows)"
    and rows_num: "\<forall>row \<in> set rows. numeric (Latitude row) \<and> numeric (Longitude row)"
    and sites_num: "\<forall>(n, p) \<in> set (project_sites s). numeric (lat p) \<and> numeric (lon p)"
  shows "\<exists>ref s'. map_of (project_sites s) (hd (visible_projects (project_sites s))) = Some ref \<and>
           radius_step Companies_Within_Radius_of_Project radius_miles rows s = (s', None) \<and>
           (\<forall>row \<in> set rows. \<exists>d.
              haversine (lat ref) (lon ref) (Latitude row) (Longitude row) = Inr d \<and>
              competitor_visibility s' (Company_Location row) = Some (d \<le> radius_miles)) \<and>
           (\<forall>(n, p) \<in> set (project_sites s). \<exists>d.
              haversine (lat ref) (lon ref) (lat p) (lon p) = Inr d \<and>
              map_of (project_sites s') n = Some (p\<lparr>visible := d \<le> radius_miles\<rparr>)) \<and>
           map fst (project_sites s') = map fst (project_sites s) \<and>
           last_radius s' = radius_miles"
proof -
  let ?sel = "hd (visible_projects (project_sites s))"
  have sel: "selected_project Companies_Within_Radius_of_Project (project_sites s) = Some ?sel"
    using vis by (simp add: selected_project_def)
  from vis have "?sel \<in> set (visible_projects (project_sites s))" by simp
  then have "?sel \<in> fst ` set (project_sites s)"
    by (auto simp: visible_projects_def)
  then obtain ref where ref: "map_of (project_sites s) ?sel = Some ref"
    by (metis map_of_eq_None_iff not_Some_eq)
  then have "(?sel, ref) \<in> set (project_sites s)" by (rule map_of_SomeD)
  with sites_num have ref_num: "numeric (lat ref)" "numeric (lon ref)" by auto
  from distances_total [OF ref_num rows_num] obtain ds where
    ds: "distances (lat ref) (lon ref) rows = Inr ds"
        "list_all2 (\<lambda>row d. haversine (lat ref) (lon ref) (Latitude row) (Longitude row) = Inr d)
           rows ds"
    by blast
  from recompute_projects_total [OF ref_num sites_num, of radius_miles] obtain sites' where
    sites': "recompute_projects (lat ref) (lon ref) radius_miles (project_sites s) = (sites', None)"
        "list_all2 (\<lambda>(n, p) (n', p'). n' = n \<and>
              (\<exists>d. haversine (lat ref) (lon ref) (lat p) (lon p) = Inr d \<and>
                   p' = p\<lparr>visible := d \<le> radius_miles\<rparr>))
             (project_sites s) sites'"
    by blast
  let ?cv = "recompute_companies radius_miles (zip rows ds) (competitor_visibility s)"
  let ?s' = "s\<lparr>competitor_visibility := ?cv, project_sites := sites', last_radius := radius_miles\<rparr>"
  have step: "radius_step Companies_Within_Radius_of_Project radius_miles rows s = (?s', None)"
    using sel ref ds(1) sites'(1) changed by (simp add: radius_step_def)
  have len: "length ds = length rows"
    using ds(2) by (simp add: list_all2_lengthD)
  have companies: "\<exists>d. haversine (lat ref) (lon ref) (Latitude row) (Longitude row) = Inr d \<and>
      ?cv (Company_Location row) = Some (d \<le> radius_miles)" if "row \<in> set rows" for row
  proof -
    from that obtain i where i: "i < length rows" "rows ! i = row"
      by (auto simp: in_set_conv_nth)
    with ds(2) have h: "haversine (lat ref) (lon ref) (Latitude row) (Longitude row) = Inr (ds ! i)"
      by (auto simp: list_all2_conv_all_nth)
    have "(row, ds ! i) \<in> set (zip rows ds)"
      using i len by (auto simp: in_set_zip)
    moreover have "distinct (map (\<lambda>z. Company_Location (fst z)) (zip rows ds))"
    proof -
      have "map (\<lambda>z. Company_Location (fst z)) (zip rows ds)
          = map Company_Location (map fst (zip rows ds))"
        by simp
      with locs len show ?thesis by (simp only: map_fst_zip)
    qed
    ultimately have "?cv (Company_Location row) = Some (ds ! i \<le> radius_miles)"
      by (rule recompute_companies_member [rotated])
    with h show ?thesis by blast
  qed
  have projects: "\<exists>d. haversine (lat ref) (lon ref) (lat p) (lon p) = Inr d \<and>
      map_of sites' n = Some (p\<lparr>visible := d \<le> radius_miles\<rparr>)"
    if "(n, p) \<in> set (project_sites s)" for n p
    using list_all2_lookup [OF sites'(2) keys that] by blast
  have keys': "map fst sites' = map fst (project_sites s)"
    using sites'(2) by (rule list_all2_keys)
  show ?thesis
    using ref step companies projects keys'
    by (intro exI [of _ ref] exI [of _ ?s']) auto
qed

theorem radius_recompute_overwrites_witness:
  "competitor_visibility
     (fst (radius_step Companies_Within_Radius_of_Project 25 example_rows example_session)) ''A''
     = Some True \<and>
   competitor_visibility
     (fst (radius_step Companies_Within_Radius_of_Project 25 example_rows example_session)) ''B''
     = Some False \<and>
   map_of (project_sites
     (fst (radius_step Companies_Within_Radius_of_Project 25 example_rows example_session))) ''Q''
     = Some \<lparr>lat = Num 0, lon = Num 180, visible = False\<rparr> \<and>
   last_radius
     (fst (radius_step Companies_Within_Radius_of_Project 25 example_rows example_session)) = 25"
proof -
  have h1: "visible_projects (project_sites example_session) \<noteq> []"
    by (simp add: example_session_def visible_projects_def)
  have h2: "(25::real) \<noteq> last_radius example_session"
    by (simp add: example_session_def)
  have h3: "distinct (map fst (project_sites example_session))"
    by (simp add: example_session_def)
  have h4: "distinct (map Company_Location example_rows)"
    by (simp add: example_rows_def)
  have h5: "\<forall>row \<in> set example_rows. numeric (Latitude row) \<and> numeric (Longitude row)"
    by (simp add: example_rows_def numeric_def)
  have h6: "\<forall>(n, p) \<in> set (project_sites example_session). numeric (lat p) \<and> numeric (lon p)"
    by (simp add: example_session_def numeric_def)
  from radius_recompute_overwrites [OF h1 h2 h3 h4 h5 h6] obtain ref s' where
    ref: "map_of (project_sites example_session) (hd (visible_projects (project_sites example_session)))
            = Some ref"
    and step: "radius_step Companies_Within_Radius_of_Project 25 example_rows example_session
            = (s', None)"
    and companies: "\<forall>row \<in> set example_rows. \<exists>d.
              haversine (lat ref) (lon ref) (Latitude row) (Longitude row) = Inr d \<and>
              competitor_visibility s' (Company_Location row) = Some (d \<le> 25)"
    and projects: "\<forall>(n, p) \<in> set (project_sites example_session). \<exists>d.
              haversine (lat ref) (lon ref) (lat p) (lon p) = Inr d \<and>
              map_of (project_sites s') n = Some (p\<lparr>visible := d \<le> 25\<rparr>)"
    and radius: "last_radius s' = 25"
    by blast
  from ref have r: "ref = \<lparr>lat = Num 0, lon = Num 0, visible = True\<rparr>"
    by (simp add: example_session_def visible_projects_def)
  from companies obtain dA dB where
    dA: "haversine (Num 0) (Num 0) (Num 0) (Num 0) = Inr dA"
        "competitor_visibility s' ''A'' = Some (dA \<le> 25)" and
    dB: "haversine (Num 0) (Num 0) (Num 0) (Num 180) = Inr dB"
        "competitor_visibility s' ''B'' = Some (dB \<le> 25)"
    by (auto simp: example_rows_def r)
  from projects obtain dQ where
    dQ: "haversine (Num 0) (Num 0) (Num 0) (Num 180) = Inr dQ"
        "map_of (project_sites s') ''Q'' =
           Some \<lparr>lat = Num 0, lon = Num 180, visible = dQ \<le> 25\<rparr>"
    by (auto simp: example_session_def r)
  from dA(1) have "dA = 0" by (simp add: haversine_origin)
  moreover from dB(1) have "dB = 3958.8 * pi" by (simp only: haversine_antipode sum.inject)
  moreover from dQ(1) have "dQ = 3958.8 * pi" by (simp only: haversine_antipode sum.inject)
  ultimately have "competitor_visibility s' ''A'' = Some True"
    "competitor_visibility s' ''B'' = Some False"
    "map_of (project_sites s') ''Q'' = Some \<lparr>lat = Num 0, lon = Num 180, visible = False\<rparr>"
    using dA(2) dB(2) dQ(2) far_away by simp_all
  then show ?thesis
    using radius by (simp add: step)
qed

section \<open>Exceptions\<close>

text \<open>
  Claim C5, as stated, fails: a text cell in a latitude raises TypeError at line 97, after
  the projects and the companies have been seeded. The error is shown, and the session is
  not the one before the pass.
\<close>

theorem exception_keeps_partial_writes:
  "snd (load_data bad_cell_ui initial_session) = [Error_loading TypeError] \<and>
   project_sites (fst (load_data bad_cell_ui initial_session)) \<noteq> project_sites initial_session \<and>
   competitor_visibility (fst (load_data bad_cell_ui initial_session)) ''A'' = Some True \<and>
   competitor_visibility initial_session ''A'' = None"
  by (simp add: load_data_def bad_cell_ui_def example_ui_def initial_session_def has_columns_def
      required_cols_def required_project_cols_def process_def seed_projects_def
      example_project_rows_def manage_project_sites_def echo_def radius_step_def
      selected_project_def visible_projects_def haversine.simps Let_def)

lemma last_radius_radius_step_failed:
  "snd (radius_step m r rows s) = Some e \<Longrightarrow> last_radius (fst (radius_step m r rows s)) = last_radius s"
  by (auto simp: radius_step_def Let_def split: option.splits sum.splits prod.splits if_splits)

lemma last_radius_seeded: "last_radius (seeded u companies projects s) = last_radius s"
  by (simp add: seeded_def manage_project_sites_def seed_projects_def split: prod.splits)

lemma load_data_messages: "length (snd (load_data u s)) \<le> 1"
  by (auto simp: load_data_def split: option.splits sum.splits prod.splits)

lemma load_data_processed:
  assumes "uploaded_file u = Some (Inr (companies, projects))"
    and "has_columns required_cols (c_columns companies)"
    and "has_columns required_project_cols (p_columns projects)"
  shows "fst (load_data u s) = fst (process u companies projects s)"
    and "snd (load_data u s) =
      (case snd (process u companies projects s) of Some e \<Rightarrow> [Error_loading e] | None \<Rightarrow> [])"
  using assms by (auto simp: load_data_def split: prod.splits option.splits)

lemma bad_cell_raises:
  "snd (process bad_cell_ui
         \<lparr>c_columns = required_cols,
          c_rows = [\<lparr>Company_Location = ''A'', Latitude = Text ''abc'',
                     Longitude = Num 0, Company_Name = ''Acme''\<rparr>]\<rparr>
         \<lparr>p_columns = required_project_cols, p_rows = example_project_rows\<rparr>
         initial_session) = Some TypeError"
  by (simp add: bad_cell_ui_def example_ui_def initial_session_def process_def
      seed_projects_def example_project_rows_def manage_project_sites_def echo_def
      radius_step_def selected_project_def visible_projects_def haversine.simps Let_def)

lemma twice_raises:
  "snd (process twice_ui
         \<lparr>c_columns = required_cols,
          c_rows = [\<lparr>Company_Location = ''A'', Latitude = Num 0,
                     Longitude = Num 0, Company_Name = ''Acme''\<rparr>,
                    \<lparr>Company_Location = ''A'', Latitude = Num 0,
                     Longitude = Num 0, Company_Name = ''Acme''\<rparr>]\<rparr>
         \<lparr>p_columns = required_project_cols, p_rows = example_project_rows\<rparr>
         initial_session) = Some (DuplicateWidgetID ''A'')"
  by (simp add: twice_ui_def example_ui_def initial_session_def process_def
      seed_projects_def example_project_rows_def manage_project_sites_def echo_def
      radius_step_def selected_project_def toggles_def global_section_def global_all_on_def
      shown_def grouped_def group_section_def all_checked_def Let_def)

lemma hidden_raises:
  "snd (process hidden_ui
         \<lparr>c_columns = required_cols, c_rows = example_rows\<rparr>
         \<lparr>p_columns = required_project_cols, p_rows = example_project_rows\<rparr>
         all_off_session) = Some ValueError"
proof -
  let ?companies = "\<lparr>c_columns = required_cols, c_rows = example_rows\<rparr>"
  let ?projects = "\<lparr>p_columns = required_project_cols, p_rows = example_project_rows\<rparr>"
  have s3: "seeded hidden_ui ?companies ?projects all_off_session = all_off_session"
    by (auto simp: seeded_def seed_projects_def manage_project_sites_def all_off_session_def
        example_session_def hidden_ui_def example_ui_def echo_def example_rows_def Let_def)
  have r: "radius_step (mode hidden_ui) (radius_manual hidden_ui) example_rows all_off_session
      = (all_off_session, None)"
    by (simp add: radius_step_def selected_project_def hidden_ui_def)
  have t: "snd (toggles hidden_ui example_rows all_off_session) = None"
    using toggles_fresh [of example_rows hidden_ui all_off_session]
    by (simp add: example_rows_def)
  have v: "visible_df example_rows all_off_session = []"
    by (simp add: visible_df_def example_rows_def all_off_session_def)
  show ?thesis
    by (simp add: process_cases s3 r t v draw_map_def map_centre_def)
qed

text \<open>
  Claim C5, amended. An exception is caught and shown as the one message of the load
  section, and nothing is rolled back: the session is left as the pass had written it up
  to the raise. Raised by the reading of the workbook, it leaves the session as it was.
  Raised in the radius step, it leaves the session of that step, with the seeded projects
  and companies and the project checkboxes, and the last applied radius is the old one.
  Raised by a company checkbox, it leaves besides the finished radius step the toggles
  written before it. Raised by the drawing of the map, it leaves every write of the pass.
  In each case every location of the sheet has its entry.
\<close>

theorem exception_caught_state_at_failure:
  "(uploaded_file u = Some (Inl e) \<longrightarrow> load_data u s = (s, [Error_loading e])) \<and>
   (uploaded_file u = Some (Inr (companies, projects)) \<and>
    has_columns required_cols (c_columns companies) \<and>
    has_columns required_project_cols (p_columns projects) \<and>
    snd (process u companies projects s) = Some e \<longrightarrow>
      snd (load_data u s) = [Error_loading e] \<and>
      (\<forall>row \<in> set (c_rows companies).
         Company_Location row \<in> dom (competitor_visibility (fst (load_data u s)))) \<and>
      (let r = radius_step (mode u) (radius_manual u) (c_rows companies)
                 (seeded u companies projects s);
           t = toggles u (c_rows companies) (fst r)
       in (snd r = Some e \<and> fst (load_data u s) = fst r \<and>
           last_radius (fst r) = last_radius s) \<or>
          (snd r = None \<and> snd t = Some e \<and> fst (load_data u s) = fst t) \<or>
          (snd r = None \<and> snd t = None \<and>
           draw_map (visible_df (c_rows companies) (fst r)) (project_sites (fst t)) = Some e \<and>
           fst (load_data u s) = fst t))) \<and>
   length (snd (load_data u s)) \<le> 1"
proof (intro conjI impI)
  assume "uploaded_file u = Some (Inl e)"
  then show "load_data u s = (s, [Error_loading e])" by (simp add: load_data_def)
next
  assume a: "uploaded_file u = Some (Inr (companies, projects)) \<and>
    has_columns required_cols (c_columns companies) \<and>
    has_columns required_project_cols (p_columns projects) \<and>
    snd (process u companies projects s) = Some e"
  let ?r = "radius_step (mode u) (radius_manual u) (c_rows companies) (seeded u companies projects s)"
  let ?t = "toggles u (c_rows companies) (fst ?r)"
  from a have f: "fst (load_data u s) = fst (process u companies projects s)"
    and m: "snd (load_data u s) = [Error_loading e]"
    by (simp_all add: load_data_processed)
  show "snd (load_data u s) = [Error_loading e]" by (rule m)
  show "\<forall>row \<in> set (c_rows companies).
         Company_Location row \<in> dom (competitor_visibility (fst (load_data u s)))"
  proof
    fix row assume "row \<in> set (c_rows companies)"
    then have "Company_Location row \<in> dom (competitor_visibility (seeded u companies projects s))"
      by (auto simp: seeded_def seed_companies_cv)
    with dom_process_seeded [of u companies projects s]
    show "Company_Location row \<in> dom (competitor_visibility (fst (load_data u s)))"
      unfolding f by blast
  qed
  from a have p: "snd (process u companies projects s) = Some e" by simp
  show "let r = ?r; t = toggles u (c_rows companies) (fst r)
       in (snd r = Some e \<and> fst (load_data u s) = fst r \<and>
           last_radius (fst r) = last_radius s) \<or>
          (snd r = None \<and> snd t = Some e \<and> fst (load_data u s) = fst t) \<or>
          (snd r = None \<and> snd t = None \<and>
           draw_map (visible_df (c_rows companies) (fst r)) (project_sites (fst t)) = Some e \<and>
           fst (load_data u s) = fst t)"
  proof (cases "snd ?r")
    case (Some x)
    with p have "x = e" by (simp add: process_cases Let_def)
    with Some show ?thesis
      using last_radius_radius_step_failed [of "mode u" "radius_manual u" "c_rows companies"
          "seeded u companies projects s" e]
      by (simp add: f fst_process Let_def last_radius_seeded)
  next
    case None
    show ?thesis
    proof (cases "snd ?t")
      case (Some x)
      with None p have "x = e" by (simp add: process_cases Let_def)
      with Some None show ?thesis by (simp add: f fst_process Let_def)
    next
      case N: None
      with None p have
        "draw_map (visible_df (c_rows companies) (fst ?r)) (project_sites (fst ?t)) = Some e"
        by (simp add: process_cases Let_def)
      with N None show ?thesis by (simp add: f fst_process Let_def)
    qed
  qed
next
  show "length (snd (load_data u s)) \<le> 1" by (rule load_data_messages)
qed

theorem exception_caught_state_at_failure_witness:
  "load_data (example_ui\<lparr>uploaded_file := Some (Inl (LoadError ''not a workbook''))\<rparr>)
     example_session = (example_session, [Error_loading (LoadError ''not a workbook'')]) \<and>
   snd (load_data bad_cell_ui initial_session) = [Error_loading TypeError] \<and>
   ''A'' \<in> dom (competitor_visibility (fst (load_data bad_cell_ui initial_session))) \<and>
   snd (load_data twice_ui initial_session) = [Error_loading (DuplicateWidgetID ''A'')] \<and>
   ''A'' \<in> dom (competitor_visibility (fst (load_data twice_ui initial_session))) \<and>
   snd (load_data hidden_ui all_off_session) = [Error_loading ValueError]"
proof -
  let ?u = "example_ui\<lparr>uploaded_file := Some (Inl (LoadError ''not a workbook''))\<rparr>"
  let ?projects = "\<lparr>p_columns = required_project_cols, p_rows = example_project_rows\<rparr>"
  let ?bad = "\<lparr>c_columns = required_cols,
               c_rows = [\<lparr>Company_Location = ''A'', Latitude = Text ''abc'',
                          Longitude = Num 0, Company_Name = ''Acme''\<rparr>]\<rparr>"
  let ?twice = "\<lparr>c_columns = required_cols,
          c_rows = [\<lparr>Company_Location = ''A'', Latitude = Num 0,
                     Longitude = Num 0, Company_Name = ''Acme''\<rparr>,
                    \<lparr>Company_Location = ''A'', Latitude = Num 0,
                     Longitude = Num 0, Company_Name = ''Acme''\<rparr>]\<rparr>"
  let ?companies = "\<lparr>c_columns = required_cols, c_rows = example_rows\<rparr>"
  have a: "uploaded_file ?u = Some (Inl (LoadError ''not a workbook''))"
    by simp
  have b: "uploaded_file bad_cell_ui = Some (Inr (?bad, ?projects))"
    "uploaded_file twice_ui = Some (Inr (?twice, ?projects))"
    "uploaded_file hidden_ui = Some (Inr (?companies, ?projects))"
    by (simp_all add: bad_cell_ui_def twice_ui_def hidden_ui_def example_ui_def)
  have c: "has_columns required_cols required_cols"
    "has_columns required_project_cols required_project_cols"
    by (simp_all add: has_columns_def list_all_iff)
  from exception_caught_state_at_failure
    [of ?u "LoadError ''not a workbook''" example_session] a
  have 1: "load_data ?u example_session =
      (example_session, [Error_loading (LoadError ''not a workbook'')])"
    by blast
  from exception_caught_state_at_failure
    [of bad_cell_ui TypeError initial_session ?bad ?projects] b(1) c bad_cell_raises
  have 2: "snd (load_data bad_cell_ui initial_session) = [Error_loading TypeError]"
    "\<forall>row \<in> set (c_rows ?bad).
         Company_Location row \<in> dom (competitor_visibility (fst (load_data bad_cell_ui initial_session)))"
    by simp_all
  from exception_caught_state_at_failure
    [of twice_ui "DuplicateWidgetID ''A''" initial_session ?twice ?projects] b(2) c twice_raises
  have 3: "snd (load_data twice_ui initial_session) = [Error_loading (DuplicateWidgetID ''A'')]"
    "\<forall>row \<in> set (c_rows ?twice).
         Company_Location row \<in> dom (competitor_visibility (fst (load_data twice_ui initial_session)))"
    by simp_all
  from exception_caught_state_at_failure
    [of hidden_ui ValueError all_off_session ?companies ?projects] b(3) c hidden_raises
  have 4: "snd (load_data hidden_ui all_off_session) = [Error_loading ValueError]"
    by simp
  from 2(2) have "''A'' \<in> dom (competitor_visibility (fst (load_data bad_cell_ui initial_session)))"
    by simp
  moreover from 3(2)
  have "''A'' \<in> dom (competitor_visibility (fst (load_data twice_ui initial_session)))"
    by simp
  ultimately show ?thesis using 1 2(1) 3(1) 4 by blast
qed

end
